theory Spec2Isabelle
  imports Complex_Main "HOL-Library.Word"
begin

section \<open>The Chrome Dino bot: data model\<close>

text \<open>
  A shallow embedding of \<^verbatim>\<open>src/dino_chrome_bot/main.py\<close>. Python floats are idealised
  as \<^typ>\<open>real\<close> (rounding is not modelled), Python integers are \<^typ>\<open>int\<close>, the pixels of a
  grayscale \<^verbatim>\<open>uint8\<close> frame are 8-bit words, and a two-dimensional array is the list of its
  rows. What the bot does to the outside world (method calls of the perception pipeline,
  key events, sleeps) is an explicit list of events; what it reads from the outside world
  (template matches, the grayscale frame, the readings of \<^verbatim>\<open>time.perf_counter\<close>) is an
  explicit input of each loop iteration.
\<close>

subsection \<open>Configuration\<close>

text \<open>The dataclass \<^verbatim>\<open>DinoParams\<close> (lines 18-47), with its default values.\<close>

record DinoParams =
  confidence_threshold :: real
  day_threshold :: real
  obstacle_min_contrast :: real
  obstacle_max_contrast :: real
  late_game_time :: real
  idle_reset_time :: real
  duck_time :: real
  post_jump_duck_sleep :: real
  init_scale_w :: real
  late_scale_w :: real

definition default_params :: DinoParams where
  "default_params =
     \<lparr>confidence_threshold = 8 / 10, day_threshold = 5 / 10,
      obstacle_min_contrast = 1 / 10, obstacle_max_contrast = 9 / 10,
      late_game_time = 30, idle_reset_time = 7, duck_time = 4 / 10,
      post_jump_duck_sleep = 2 / 100, init_scale_w = 15 / 10, late_scale_w = 4\<rparr>"

subsection \<open>Python primitives\<close>

datatype error = ZeroDivisionError | IndexError | ValueError

text \<open>\<^verbatim>\<open>int(x)\<close> on a float truncates towards zero.\<close>

definition py_int :: "real \<Rightarrow> int" where
  "py_int r = (if 0 \<le> r then \<lfloor>r\<rfloor> else \<lceil>r\<rceil>)"

text \<open>
  Division raises \<^verbatim>\<open>ZeroDivisionError\<close> on a zero divisor. (Dividing numpy numbers by
  zero gives \<^verbatim>\<open>nan\<close> or \<^verbatim>\<open>inf\<close> and a warning instead; the model has the same error value
  for it. The program tests the divisor first in both places where it divides numpy
  numbers, and the properties below show that the error cannot occur there.)
\<close>

definition py_div :: "real \<Rightarrow> real \<Rightarrow> error + real" where
  "py_div numerator divisor =
     (if divisor \<noteq> 0 then Inr (numerator / divisor) else Inl ZeroDivisionError)"

section \<open>The scan scale\<close>

text \<open>
  \<^verbatim>\<open>_get_dynamic_scale_w\<close> (lines 319-335): the late scale once the elapsed time has
  reached \<^verbatim>\<open>late_game_time\<close>, the linear interpolation before.
\<close>

definition get_dynamic_scale_w :: "DinoParams \<Rightarrow> real \<Rightarrow> error + real" where
  "get_dynamic_scale_w p elapsed_time =
     (if elapsed_time \<ge> late_game_time p then Inr (late_scale_w p)
      else case py_div elapsed_time (late_game_time p) of
             Inl e \<Rightarrow> Inl e
           | Inr ratio \<Rightarrow> Inr (init_scale_w p + ratio * (late_scale_w p - init_scale_w p)))"

section \<open>The obstacle test\<close>

text \<open>
  The chained comparison of lines 381-386, written twice in \<^verbatim>\<open>play\<close> (once for the
  middle band, once for the bottom band).
\<close>

definition is_obstacle :: "DinoParams \<Rightarrow> real \<Rightarrow> bool" where
  "is_obstacle p contrast \<longleftrightarrow>
     obstacle_min_contrast p < contrast \<and> contrast < obstacle_max_contrast p"

section \<open>Arrays\<close>

text \<open>
  A grayscale frame is a \<^verbatim>\<open>uint8\<close> array of shape (rows, columns): the list of its rows.
  A basic slice \<^verbatim>\<open>a[start:stop]\<close> never raises: a negative bound counts from the end of
  the axis, and a bound beyond either end of the axis stops there.
\<close>

type_synonym pixel = "8 word"
type_synonym gray = "pixel list list"

definition slice_bound :: "nat \<Rightarrow> int \<Rightarrow> nat" where
  "slice_bound n i = (if i < 0 then nat (max (i + int n) 0) else min (nat i) n)"

definition np_slice :: "int \<Rightarrow> int \<Rightarrow> 'a list \<Rightarrow> 'a list" where
  "np_slice start stop xs =
     (let lo = slice_bound (length xs) start; hi = slice_bound (length xs) stop
      in take (hi - lo) (drop lo xs))"

text \<open>\<^verbatim>\<open>a[r0:r1, c0:c1]\<close> on a two-dimensional array.\<close>

definition np_slice2 :: "int \<Rightarrow> int \<Rightarrow> int \<Rightarrow> int \<Rightarrow> 'a list list \<Rightarrow> 'a list list" where
  "np_slice2 r0 r1 c0 c1 a = map (np_slice c0 c1) (np_slice r0 r1 a)"

text \<open>\<^verbatim>\<open>a.size\<close>, the number of elements, and \<^verbatim>\<open>(a == 255).sum()\<close>.\<close>

definition np_size :: "'a list list \<Rightarrow> nat" where
  "np_size a = length (concat a)"

definition count_white :: "gray \<Rightarrow> nat" where
  "count_white a = length (filter (\<lambda>v. v = 255) (concat a))"

text \<open>
  \<^verbatim>\<open>cv2.threshold(src, thresh, 255, cv2.THRESH_BINARY)\<close>, by the library's documented
  contract: the destination has the size of the source (taken to hold for an empty source
  too), and a pixel becomes \<^verbatim>\<open>maxval\<close> if it is greater than \<^verbatim>\<open>thresh\<close> and 0 otherwise. With \<^verbatim>\<open>cv2.THRESH_OTSU\<close> the library
  chooses the threshold itself from the histogram of the source; that choice is the
  parameter \<open>otsu\<close> of the model.
\<close>

definition cv2_threshold_binary :: "pixel \<Rightarrow> pixel \<Rightarrow> gray \<Rightarrow> gray" where
  "cv2_threshold_binary thresh maxval src = map (map (\<lambda>v. if v > thresh then maxval else 0)) src"

definition cv2_threshold_otsu :: "(gray \<Rightarrow> pixel) \<Rightarrow> pixel \<Rightarrow> gray \<Rightarrow> gray" where
  "cv2_threshold_otsu otsu maxval src = cv2_threshold_binary (otsu src) maxval src"

section \<open>Templates and the bot's state\<close>

text \<open>
  The content of a colour image is not modelled: an image is how it was obtained, either
  read from a file, \<open>Loaded height width\<close>, or the result of a call
  \<^verbatim>\<open>cv2.resize(src, (width, height), interpolation=...)\<close>,
  \<open>Resized src width height interpolation\<close>.
\<close>

datatype interpolation = INTER_NEAREST | INTER_LINEAR | INTER_CUBIC | INTER_AREA

datatype image = Loaded int int | Resized image int int interpolation

text \<open>\<^verbatim>\<open>image.shape[0]\<close> (height) and \<^verbatim>\<open>image.shape[1]\<close> (width).\<close>

fun shape_h :: "image \<Rightarrow> int" where
  "shape_h (Loaded h w) = h"
| "shape_h (Resized src w h i) = h"

fun shape_w :: "image \<Rightarrow> int" where
  "shape_w (Loaded h w) = w"
| "shape_w (Resized src w h i) = w"

text \<open>
  The fields of \<^verbatim>\<open>DinoBot\<close> that the perception and decision loop reads or writes. The
  parameters \<^verbatim>\<open>self.params\<close> are never written and are passed separately; the debug
  display is not modelled.
\<close>

record DinoBot =
  screen_id :: int
  orig_width :: int
  orig_height :: int
  template_day :: "image option"
  template_night :: "image option"
  skip_initialize :: bool
  top_left :: "int \<times> int"
  template_h :: int
  template_w :: int
  last_button_push :: real
  start_time :: real

text \<open>List indexing \<^verbatim>\<open>xs[i]\<close>: a negative index counts from the end.\<close>

definition py_nth :: "'a list \<Rightarrow> int \<Rightarrow> error + 'a" where
  "py_nth xs i =
     (if 0 \<le> i \<and> i < int (length xs) then Inr (xs ! nat i)
      else if i < 0 \<and> - int (length xs) \<le> i then Inr (xs ! nat (int (length xs) + i))
      else Inl IndexError)"

text \<open>
  \<^verbatim>\<open>_resize_template\<close> (lines 99-130). \<open>monitors\<close> is \<^verbatim>\<open>sct.monitors\<close>, each monitor given
  by its width and height; the template is the result of \<^verbatim>\<open>cv2.imread\<close>, \<open>None\<close> when
  the image could not be read.
\<close>

definition resize_template ::
  "int \<Rightarrow> int \<Rightarrow> int \<Rightarrow> (int \<times> int) list \<Rightarrow> image option \<Rightarrow> error + image option" where
  "resize_template sid orig_w orig_h monitors template =
     (case template of
        None \<Rightarrow> Inr None
      | Some t \<Rightarrow>
          (case py_nth monitors sid of
             Inl e \<Rightarrow> Inl e
           | Inr (screen_width, screen_height) \<Rightarrow>
               (case py_div (real_of_int screen_width) (real_of_int orig_w) of
                  Inl e \<Rightarrow> Inl e
                | Inr scale_w \<Rightarrow>
                    (case py_div (real_of_int screen_height) (real_of_int orig_h) of
                       Inl e \<Rightarrow> Inl e
                     | Inr scale_h \<Rightarrow>
                         (let new_width = py_int (real_of_int (shape_w t) * scale_w);
                              new_height = py_int (real_of_int (shape_h t) * scale_h);
                              new_width = max 1 new_width;
                              new_height = max 1 new_height
                          in Inr (Some (Resized t new_width new_height INTER_AREA)))))))"

text \<open>
  \<^verbatim>\<open>DinoBot.__init__\<close> (lines 58-97). \<open>original_day\<close> and \<open>original_night\<close> are what
  \<^verbatim>\<open>cv2.imread\<close> returned for the two template files (\<open>None\<close> for an image it could not
  read), \<open>t1\<close> and \<open>t2\<close> the two readings of \<^verbatim>\<open>time.perf_counter\<close>. Locating the two
  files in the package (lines 77-81) is not modelled.
\<close>

definition dino_init ::
  "int \<Rightarrow> (int \<times> int) list \<Rightarrow> image option \<Rightarrow> image option \<Rightarrow> real \<Rightarrow> real \<Rightarrow> error + DinoBot" where
  "dino_init sid monitors original_day original_night t1 t2 =
     (case resize_template sid 1920 1080 monitors original_day of
        Inl e \<Rightarrow> Inl e
      | Inr day \<Rightarrow>
          (case resize_template sid 1920 1080 monitors original_night of
             Inl e \<Rightarrow> Inl e
           | Inr night \<Rightarrow>
               Inr \<lparr>screen_id = sid, orig_width = 1920, orig_height = 1080,
                    template_day = day, template_night = night,
                    skip_initialize = False, top_left = (0, 0),
                    template_h = 0, template_w = 0,
                    last_button_push = t1, start_time = t2\<rparr>))"

section \<open>The localizer\<close>

text \<open>
  \<^verbatim>\<open>_find_dinosaur\<close> (lines 189-224). For a matcher \<open>m\<close>, \<open>m t\<close> is the best score and
  its location that \<^verbatim>\<open>cv2.matchTemplate\<close> and \<^verbatim>\<open>cv2.minMaxLoc\<close> report for template \<open>t\<close>
  on the current frame. \<open>find_step\<close> is the body of the loop over the two templates, on the
  loop's variables \<^verbatim>\<open>(max_val, top_left, template_h, template_w)\<close>.
\<close>

type_synonym matcher = "image \<Rightarrow> real \<times> (int \<times> int)"

fun find_step ::
  "matcher \<Rightarrow> real \<times> (int \<times> int) \<times> int \<times> int \<Rightarrow> image option \<Rightarrow> real \<times> (int \<times> int) \<times> int \<times> int" where
  "find_step m (max_val, loc, h, w) None = (max_val, loc, h, w)"
| "find_step m (max_val, loc, h, w) (Some t) =
     (case m t of (local_max_val, local_max_loc) \<Rightarrow>
        if local_max_val > max_val then (local_max_val, local_max_loc, shape_h t, shape_w t)
        else (max_val, loc, h, w))"

definition find_dinosaur ::
  "DinoParams \<Rightarrow> DinoBot \<Rightarrow> matcher \<Rightarrow> bool \<times> real \<times> (int \<times> int) \<times> int \<times> int" where
  "find_dinosaur p s m =
     (case foldl (find_step m) (0, (0, 0), 0, 0) [template_night s, template_day s] of
        (max_val, loc, h, w) \<Rightarrow> (max_val \<ge> confidence_threshold p, max_val, loc, h, w))"

section \<open>The scene classifier\<close>

text \<open>
  \<^verbatim>\<open>_is_day_scene\<close> (lines 226-245). The coordinates and the template height are
  integers, so \<^verbatim>\<open>int(...)\<close> leaves them as they are.
\<close>

definition is_day_scene :: "DinoParams \<Rightarrow> DinoBot \<Rightarrow> gray \<Rightarrow> error + bool" where
  "is_day_scene p s frame =
     (case top_left s of (x, y) \<Rightarrow>
        (let sky_y_start = max (y - template_h s) 0;
             sky_y_end = y;
             sky_region = np_slice sky_y_start sky_y_end frame
         in if np_size sky_region = 0 then Inr False
            else (case py_div (real (count_white sky_region)) (real (np_size sky_region)) of
                    Inl e \<Rightarrow> Inl e
                  | Inr white_ratio \<Rightarrow> Inr (white_ratio > day_threshold p))))"

section \<open>The obstacle extractor and evaluator\<close>

text \<open>\<^verbatim>\<open>_threshold_obstacle_frames\<close> (lines 247-286).\<close>

definition threshold_obstacle_frames ::
  "(gray \<Rightarrow> pixel) \<Rightarrow> DinoBot \<Rightarrow> gray \<Rightarrow> bool \<Rightarrow> real \<Rightarrow> gray \<times> gray" where
  "threshold_obstacle_frames otsu s frame is_day scale_w =
     (case top_left s of (x, y) \<Rightarrow>
        (let new_top_left = real_of_int y - 0.5 * real_of_int (template_h s);
             new_h = 1.5 * real_of_int (template_h s);
             middle_obstacle_frame =
               np_slice2 (py_int (new_top_left + new_h / 3)) (py_int (new_top_left + 2 * new_h / 3))
                 (py_int (real_of_int x + (scale_w - 1) * real_of_int (template_w s)))
                 (py_int (real_of_int x + scale_w * real_of_int (template_w s))) frame;
             bottom_obstacle_frame =
               np_slice2 (py_int (new_top_left + 2 * new_h / 3)) (py_int (new_top_left + new_h))
                 (py_int (real_of_int x + (scale_w - 1) * real_of_int (template_w s)))
                 (py_int (real_of_int x + scale_w * real_of_int (template_w s))) frame
         in if is_day
            then (cv2_threshold_binary 180 255 middle_obstacle_frame,
                  cv2_threshold_binary 180 255 bottom_obstacle_frame)
            else (cv2_threshold_otsu otsu 255 middle_obstacle_frame,
                  cv2_threshold_otsu otsu 255 bottom_obstacle_frame)))"

text \<open>
  \<^verbatim>\<open>_compute_contrasts\<close> (lines 288-305): the loop over the frames, the guard against an
  empty frame and the division.
\<close>

fun compute_contrasts :: "gray list \<Rightarrow> error + real list" where
  "compute_contrasts [] = Inr []"
| "compute_contrasts (f # fs) =
     (case (if np_size f = 0 then Inr 0
            else py_div (real (count_white f)) (real (np_size f))) of
        Inl e \<Rightarrow> Inl e
      | Inr ratio \<Rightarrow>
          (case compute_contrasts fs of
             Inl e \<Rightarrow> Inl e
           | Inr contrasts \<Rightarrow> Inr (ratio # contrasts)))"

section \<open>The control loop\<close>

text \<open>
  What one iteration does to the outside world, in order: the calls of the perception
  methods, and the key events and sleeps (\<^verbatim>\<open>pyautogui.press\<close>, \<^verbatim>\<open>pyautogui.keyDown\<close>,
  \<^verbatim>\<open>pyautogui.keyUp\<close>, \<^verbatim>\<open>time.sleep\<close>). Console output and the preview window are left
  out.
\<close>

datatype call = FindDinosaur | IsDayScene | GetDynamicScaleW | ThresholdObstacleFrames | ComputeContrasts

datatype event = Call call | Press string | KeyDown string | KeyUp string | Sleep real

text \<open>
  What one iteration reads from the outside world: the template matches on the captured
  frame, its grayscale version, and the values that the successive calls of
  \<^verbatim>\<open>time.perf_counter\<close> return in this iteration.
\<close>

record tick_input =
  matcher_of :: matcher
  frame_gray :: gray
  clock1 :: real
  clock2 :: real
  clock3 :: real

text \<open>
  Lines 354-362: the iteration while the dinosaur has not been found. The result of the
  localizer is stored in the bot whether or not it was found.
\<close>

definition searching_tick :: "DinoParams \<Rightarrow> DinoBot \<Rightarrow> tick_input \<Rightarrow> DinoBot \<times> event list" where
  "searching_tick p s inp =
     (case find_dinosaur p s (matcher_of inp) of
        (found, max_val, loc, h, w) \<Rightarrow>
          (let s1 = s\<lparr>top_left := loc, template_h := h, template_w := w\<rparr>
           in if found
              then (s1\<lparr>skip_initialize := True, last_button_push := clock1 inp,
                        start_time := clock2 inp\<rparr>,
                    [Call FindDinosaur, Press ''space''])
              else (s1, [Call FindDinosaur])))"

text \<open>\<^verbatim>\<open>time.sleep\<close> raises \<^verbatim>\<open>ValueError\<close> on a negative duration.\<close>

definition time_sleep :: "real \<Rightarrow> error + event list" where
  "time_sleep d = (if d < 0 then Inl ValueError else Inr [Sleep d])"

text \<open>Lines 389-407 (``3. Input action''): the choice of the key action.\<close>

definition input_action ::
  "DinoParams \<Rightarrow> real \<Rightarrow> real \<Rightarrow> bool \<Rightarrow> bool \<Rightarrow> DinoBot \<Rightarrow> error + DinoBot \<times> event list" where
  "input_action p elapsed_time now is_obstacle_bottom is_obstacle_middle s =
     (if is_obstacle_bottom then
        (if elapsed_time \<ge> late_game_time p then
           (case time_sleep (post_jump_duck_sleep p) of
              Inl e \<Rightarrow> Inl e
            | Inr slept \<Rightarrow>
                Inr (s\<lparr>last_button_push := now\<rparr>,
                     [KeyDown ''space'', KeyUp ''space''] @ slept
                       @ [KeyDown ''down'', KeyUp ''down'']))
         else Inr (s\<lparr>last_button_push := now\<rparr>, [Press ''space'']))
      else if is_obstacle_middle then
        (case time_sleep (duck_time p) of
           Inl e \<Rightarrow> Inl e
         | Inr slept \<Rightarrow>
             Inr (s\<lparr>last_button_push := now\<rparr>, [KeyDown ''down''] @ slept @ [KeyUp ''down'']))
      else Inr (s, []))"

text \<open>
  Lines 409-414: the idle reset. \<open>now\<close> is the reading taken before the key action,
  \<open>t\<close> the new reading of \<^verbatim>\<open>time.perf_counter\<close> taken after the key press.
\<close>

definition idle_reset :: "DinoParams \<Rightarrow> real \<Rightarrow> real \<Rightarrow> DinoBot \<Rightarrow> DinoBot \<times> event list" where
  "idle_reset p now t s =
     (if now - last_button_push s > idle_reset_time p
      then (s\<lparr>start_time := t, last_button_push := now\<rparr>, [Press ''space''])
      else (s, []))"

text \<open>Lines 364-414: the iteration once the dinosaur has been found.\<close>

definition tracking_tick ::
  "DinoParams \<Rightarrow> (gray \<Rightarrow> pixel) \<Rightarrow> DinoBot \<Rightarrow> tick_input \<Rightarrow> error + DinoBot \<times> event list" where
  "tracking_tick p otsu s inp =
     (case is_day_scene p s (frame_gray inp) of
        Inl e \<Rightarrow> Inl e
      | Inr day_scene \<Rightarrow>
          (let elapsed_time = clock1 inp - start_time s
           in case get_dynamic_scale_w p elapsed_time of
                Inl e \<Rightarrow> Inl e
              | Inr scale_w \<Rightarrow>
                  (case threshold_obstacle_frames otsu s (frame_gray inp) day_scene scale_w of
                     (middle_thresh_frame, bottom_thresh_frame) \<Rightarrow>
                       (case compute_contrasts [middle_thresh_frame, bottom_thresh_frame] of
                          Inl e \<Rightarrow> Inl e
                        | Inr [middle_contrast, bottom_contrast] \<Rightarrow>
                            (let now = clock2 inp;
                                 is_obstacle_middle = is_obstacle p middle_contrast;
                                 is_obstacle_bottom = is_obstacle p bottom_contrast
                             in case input_action p elapsed_time now is_obstacle_bottom
                                       is_obstacle_middle s of
                                  Inl e \<Rightarrow> Inl e
                                | Inr (s1, keys) \<Rightarrow>
                                    (case idle_reset p now (clock3 inp) s1 of
                                       (s2, reset) \<Rightarrow>
                                         Inr (s2,
                                           [Call IsDayScene, Call GetDynamicScaleW,
                                            Call ThresholdObstacleFrames, Call ComputeContrasts]
                                             @ keys @ reset)))
                        | Inr _ \<Rightarrow> Inl ValueError))))"

text \<open>One iteration of the loop of \<^verbatim>\<open>play\<close> (lines 343-414).\<close>

definition play_tick ::
  "DinoParams \<Rightarrow> (gray \<Rightarrow> pixel) \<Rightarrow> DinoBot \<Rightarrow> tick_input \<Rightarrow> error + DinoBot \<times> event list" where
  "play_tick p otsu s inp =
     (if \<not> skip_initialize s then Inr (searching_tick p s inp)
      else tracking_tick p otsu s inp)"

text \<open>
  The loop \<^verbatim>\<open>while True\<close> has no exit of its own. \<open>play\<close> runs its first iterations,
  one for each element of the list of inputs, and stops at the first error. It returns
  the last state and, for each iteration, the state at its start and its events.
\<close>

fun play ::
  "DinoParams \<Rightarrow> (gray \<Rightarrow> pixel) \<Rightarrow> DinoBot \<Rightarrow> tick_input list
     \<Rightarrow> error + DinoBot \<times> (DinoBot \<times> event list) list" where
  "play p otsu s [] = Inr (s, [])"
| "play p otsu s (inp # inps) =
     (case play_tick p otsu s inp of
        Inl e \<Rightarrow> Inl e
      | Inr (s', evs) \<Rightarrow>
          (case play p otsu s' inps of
             Inl e \<Rightarrow> Inl e
           | Inr (s'', trace) \<Rightarrow> Inr (s'', (s, evs) # trace)))"

text \<open>The key events and sleeps among the events of an iteration.\<close>

fun is_call :: "event \<Rightarrow> bool" where
  "is_call (Call c) = True"
| "is_call e = False"

definition key_events :: "event list \<Rightarrow> event list" where
  "key_events evs = filter (\<lambda>e. \<not> is_call e) evs"

section \<open>Reference notions\<close>

text \<open>
  Notions that the properties below are stated with. They are not part of the program:
  each one names something the program computes inline, or says in the words of the
  specification what the program is compared with.
\<close>

subsection \<open>Contrast and events\<close>

text \<open>The ratio that \<^verbatim>\<open>_compute_contrasts\<close> computes for one frame.\<close>

definition contrast :: "gray \<Rightarrow> real" where
  "contrast f = (if np_size f = 0 then 0 else real (count_white f) / real (np_size f))"

text \<open>The perception calls of a tracking iteration, in their order.\<close>

definition perception_calls :: "event list" where
  "perception_calls =
     [Call IsDayScene, Call GetDynamicScaleW, Call ThresholdObstacleFrames, Call ComputeContrasts]"

definition tracking_calls :: "call set" where
  "tracking_calls = {IsDayScene, GetDynamicScaleW, ThresholdObstacleFrames, ComputeContrasts}"

text \<open>The cached position and size of the character.\<close>

definition character_state :: "DinoBot \<Rightarrow> (int \<times> int) \<times> int \<times> int" where
  "character_state s = (top_left s, template_h s, template_w s)"

subsection \<open>The sky strip\<close>

text \<open>
  The pixels of the rows \<open>i\<close> of the frame with \<open>max (y - h) 0 \<le> i < y\<close>, all columns,
  and the classification of the scene from them: not day when there is no such pixel,
  otherwise day exactly when the share of pixels equal to 255 is greater than
  \<^verbatim>\<open>day_threshold\<close>.
\<close>

definition sky_strip :: "DinoBot \<Rightarrow> gray \<Rightarrow> pixel list" where
  "sky_strip s frame =
     concat (map (\<lambda>i. frame ! i)
       [nat (max (snd (top_left s) - template_h s) 0)
          ..< min (nat (snd (top_left s))) (length frame)])"

definition spec_is_day :: "DinoParams \<Rightarrow> DinoBot \<Rightarrow> gray \<Rightarrow> bool" where
  "spec_is_day p s frame =
     (if sky_strip s frame = [] then False
      else real (length (filter (\<lambda>v. v = 255) (sky_strip s frame)))
             / real (length (sky_strip s frame)) > day_threshold p)"

subsection \<open>The scan window\<close>

text \<open>
  The vertical window has its top at \<open>y - 0.5 h\<close> and the height \<open>1.5 h\<close>; the scan
  columns go from \<open>x + (scale_w - 1) w\<close> to \<open>x + scale_w w\<close>. A band is binarized with
  the fixed threshold 180 by day and with the automatic threshold by night. The extractor
  takes the middle third and the last third of the window; \<open>crop\<close> says how integer
  coordinates select a part of the frame.
\<close>

definition window_top :: "DinoBot \<Rightarrow> real" where
  "window_top s = real_of_int (snd (top_left s)) - 0.5 * real_of_int (template_h s)"

definition window_height :: "DinoBot \<Rightarrow> real" where
  "window_height s = 1.5 * real_of_int (template_h s)"

definition scan_left :: "DinoBot \<Rightarrow> real \<Rightarrow> real" where
  "scan_left s scale_w =
     real_of_int (fst (top_left s)) + (scale_w - 1) * real_of_int (template_w s)"

definition scan_right :: "DinoBot \<Rightarrow> real \<Rightarrow> real" where
  "scan_right s scale_w = real_of_int (fst (top_left s)) + scale_w * real_of_int (template_w s)"

definition binarize :: "(gray \<Rightarrow> pixel) \<Rightarrow> bool \<Rightarrow> gray \<Rightarrow> gray" where
  "binarize otsu is_day band =
     map (map (\<lambda>v. if v > (if is_day then 180 else otsu band) then 255 else 0)) band"

definition extract_with ::
  "(int \<Rightarrow> int \<Rightarrow> int \<Rightarrow> int \<Rightarrow> gray \<Rightarrow> gray) \<Rightarrow> (gray \<Rightarrow> pixel) \<Rightarrow> DinoBot \<Rightarrow> gray \<Rightarrow> bool
     \<Rightarrow> real \<Rightarrow> gray \<times> gray" where
  "extract_with crop otsu s frame is_day scale_w =
     (binarize otsu is_day
        (crop (py_int (window_top s + window_height s / 3))
              (py_int (window_top s + 2 * window_height s / 3))
              (py_int (scan_left s scale_w)) (py_int (scan_right s scale_w)) frame),
      binarize otsu is_day
        (crop (py_int (window_top s + 2 * window_height s / 3))
              (py_int (window_top s + window_height s))
              (py_int (scan_left s scale_w)) (py_int (scan_right s scale_w)) frame))"




subsection \<open>Templates\<close>


text \<open>The bot as \<^verbatim>\<open>__init__\<close> leaves it, and a bot that has found the dinosaur.\<close>

definition started_bot :: "int \<Rightarrow> image option \<Rightarrow> image option \<Rightarrow> real \<Rightarrow> real \<Rightarrow> DinoBot" where
  "started_bot sid day night t1 t2 =
     \<lparr>screen_id = sid, orig_width = 1920, orig_height = 1080,
      template_day = day, template_night = night,
      skip_initialize = False, top_left = (0, 0), template_h = 0, template_w = 0,
      last_button_push = t1, start_time = t2\<rparr>"

definition tracking_bot :: "int \<times> int \<Rightarrow> int \<Rightarrow> int \<Rightarrow> real \<Rightarrow> real \<Rightarrow> DinoBot" where
  "tracking_bot loc h w pushed started =
     \<lparr>screen_id = 1, orig_width = 1920, orig_height = 1080,
      template_day = None, template_night = None, skip_initialize = True,
      top_left = loc, template_h = h, template_w = w,
      last_button_push = pushed, start_time = started\<rparr>"

text \<open>What the localizer reports when \<open>t\<close> is the only template it has.\<close>

definition locate_with ::
  "DinoParams \<Rightarrow> matcher \<Rightarrow> image \<Rightarrow> bool \<times> real \<times> (int \<times> int) \<times> int \<times> int" where
  "locate_with p m t =
     (if fst (m t) > 0
      then (fst (m t) \<ge> confidence_threshold p, fst (m t), snd (m t), shape_h t, shape_w t)
      else (0 \<ge> confidence_threshold p, 0, (0, 0), 0, 0))"

subsection \<open>Example inputs\<close>

text \<open>
  Small frames for a character of height 2 and width 2 at the top left corner: one with
  a ground obstacle in the bottom row, one with a flying obstacle in the top row, one
  with nothing, one for a character at the left edge of a narrow frame, and two with a
  bright sky.
\<close>

definition ground_frame :: gray where
  "ground_frame = [[0, 0, 0, 0, 0, 0, 0, 0], [0, 255, 0, 0, 0, 0, 255, 0]]"

definition bird_frame :: gray where
  "bird_frame = [[0, 255, 0, 0, 0, 0, 0, 0], [0, 0, 0, 0, 0, 0, 0, 0]]"

definition empty_frame :: gray where
  "empty_frame = [[0, 0, 0, 0, 0, 0, 0, 0], [0, 0, 0, 0, 0, 0, 0, 0]]"


definition sky_frame :: gray where
  "sky_frame = [[255, 255, 255, 255, 255, 255, 255, 0, 0, 0],
                [255, 255, 255, 255, 255, 255, 255, 255, 255, 255]]"


definition tick_at :: "matcher \<Rightarrow> gray \<Rightarrow> real \<Rightarrow> real \<Rightarrow> real \<Rightarrow> tick_input" where
  "tick_at m frame t1 t2 t3 =
     \<lparr>matcher_of = m, frame_gray = frame, clock1 = t1, clock2 = t2, clock3 = t3\<rparr>"

section \<open>Properties of the scan scale\<close>

lemma get_dynamic_scale_w_late:
  "late_game_time p \<le> e \<Longrightarrow> get_dynamic_scale_w p e = Inr (late_scale_w p)"
  by (simp add: get_dynamic_scale_w_def)

lemma get_dynamic_scale_w_early:
  assumes "e < late_game_time p" and "late_game_time p \<noteq> 0"
  shows "get_dynamic_scale_w p e =
           Inr (init_scale_w p + e / late_game_time p * (late_scale_w p - init_scale_w p))"
  using assms by (simp add: get_dynamic_scale_w_def py_div_def)

text \<open>
  The value of the scale as a plain real, for a positive \<^verbatim>\<open>late_game_time\<close>: the
  interpolation clamped at the late scale.
\<close>

lemma get_dynamic_scale_w_value:
  assumes "0 < late_game_time p"
  shows "get_dynamic_scale_w p e =
           Inr (if late_game_time p \<le> e then late_scale_w p
                else init_scale_w p + e / late_game_time p * (late_scale_w p - init_scale_w p))"
  using assms by (simp add: get_dynamic_scale_w_def py_div_def)

lemma interpolation_mono:
  fixes a b T e1 e2 :: real
  assumes "a \<le> b" and "0 < T" and "e1 \<le> e2"
  shows "a + e1 / T * (b - a) \<le> a + e2 / T * (b - a)"
proof -
  from assms(2,3) have "e1 / T \<le> e2 / T"
    by (simp add: divide_right_mono)
  moreover from assms(1) have "0 \<le> b - a" by simp
  ultimately have "e1 / T * (b - a) \<le> e2 / T * (b - a)"
    by (rule mult_right_mono)
  then show ?thesis by simp
qed

lemma interpolation_below_late:
  fixes a b T e :: real
  assumes "a \<le> b" and "0 < T" and "e < T"
  shows "a + e / T * (b - a) \<le> b"
proof -
  from assms(2,3) have "e / T \<le> 1" by simp
  moreover from assms(1) have "0 \<le> b - a" by simp
  ultimately have "e / T * (b - a) \<le> 1 * (b - a)"
    by (rule mult_right_mono)
  then show ?thesis by simp
qed

text \<open>
  C2. With the parameters in their documented roles (\<^verbatim>\<open>init_scale_w\<close> the minimal and
  \<^verbatim>\<open>late_scale_w\<close> the maximal scale, \<^verbatim>\<open>late_game_time\<close> a positive number of seconds),
  \<^verbatim>\<open>_get_dynamic_scale_w\<close> returns a scale for every elapsed time, the scale is monotonically
  non-decreasing in the elapsed time, it is \<^verbatim>\<open>init_scale_w\<close> at elapsed time 0, it is
  \<^verbatim>\<open>late_scale_w\<close> from \<^verbatim>\<open>late_game_time\<close> on, and it is exactly
  \<^verbatim>\<open>init_scale_w + (elapsed / late_game_time) * (late_scale_w - init_scale_w)\<close> in between;
  with the defaults (1.5, 4.0, 30) the scale at elapsed time 15 is 2.75.
\<close>

theorem C2_dynamic_scale_w:
  assumes "init_scale_w p \<le> late_scale_w p" and "0 < late_game_time p"
  shows "(\<forall>e1 e2. 0 \<le> e1 \<and> e1 \<le> e2 \<longrightarrow>
            (\<exists>s1 s2. get_dynamic_scale_w p e1 = Inr s1 \<and> get_dynamic_scale_w p e2 = Inr s2
                \<and> s1 \<le> s2))
       \<and> get_dynamic_scale_w p 0 = Inr (init_scale_w p)
       \<and> (\<forall>e. late_game_time p \<le> e \<longrightarrow> get_dynamic_scale_w p e = Inr (late_scale_w p))
       \<and> (\<forall>e. 0 \<le> e \<and> e < late_game_time p \<longrightarrow>
            get_dynamic_scale_w p e =
              Inr (init_scale_w p + e / late_game_time p * (late_scale_w p - init_scale_w p)))
       \<and> get_dynamic_scale_w default_params 15 = Inr (275 / 100)"
proof -
  let ?T = "late_game_time p" and ?a = "init_scale_w p" and ?b = "late_scale_w p"
  have mono: "\<exists>s1 s2. get_dynamic_scale_w p e1 = Inr s1 \<and> get_dynamic_scale_w p e2 = Inr s2
                \<and> s1 \<le> s2" if "e1 \<le> e2" for e1 e2
  proof (cases "?T \<le> e1")
    case True
    with that have "?T \<le> e2" by simp
    with True show ?thesis by (simp add: get_dynamic_scale_w_late)
  next
    case e1: False
    show ?thesis
    proof (cases "?T \<le> e2")
      case True
      from e1 assms have "?a + e1 / ?T * (?b - ?a) \<le> ?b"
        by (intro interpolation_below_late) simp_all
      with e1 True assms(2) show ?thesis
        by (simp add: get_dynamic_scale_w_value)
    next
      case False
      from assms that have "?a + e1 / ?T * (?b - ?a) \<le> ?a + e2 / ?T * (?b - ?a)"
        by (intro interpolation_mono)
      with e1 False assms(2) show ?thesis
        by (simp add: get_dynamic_scale_w_value)
    qed
  qed
  have zero: "get_dynamic_scale_w p 0 = Inr ?a"
    using assms(2) by (simp add: get_dynamic_scale_w_value)
  have between: "get_dynamic_scale_w p e = Inr (?a + e / ?T * (?b - ?a))" if "e < ?T" for e
    using that assms(2) by (simp add: get_dynamic_scale_w_value)
  have example: "get_dynamic_scale_w default_params 15 = Inr (275 / 100)"
    by (simp add: get_dynamic_scale_w_def py_div_def default_params_def)
  from mono zero between example show ?thesis
    by (simp add: get_dynamic_scale_w_late)
qed

text \<open>
  The default parameters: the scale is 1.5 at the start, 2.33 after 10 seconds and 4 from
  30 seconds on.
\<close>

theorem C2_dynamic_scale_w_witness:
  "get_dynamic_scale_w default_params 0 = Inr (15 / 10)
   \<and> get_dynamic_scale_w default_params 10 = Inr (14 / 6)
   \<and> get_dynamic_scale_w default_params 30 = Inr 4
   \<and> get_dynamic_scale_w default_params 45 = Inr 4"
proof -
  have a: "init_scale_w default_params \<le> late_scale_w default_params"
    by (simp add: default_params_def)
  have T: "0 < late_game_time default_params"
    by (simp add: default_params_def)
  have "(10::real) < late_game_time default_params \<and> (0::real) \<le> 10
        \<and> late_game_time default_params \<le> 30 \<and> late_game_time default_params \<le> 45"
    by (simp add: default_params_def)
  with C2_dynamic_scale_w [OF a T] have
    "get_dynamic_scale_w default_params 0 = Inr (init_scale_w default_params)
     \<and> get_dynamic_scale_w default_params 10 =
         Inr (init_scale_w default_params + 10 / late_game_time default_params
                * (late_scale_w default_params - init_scale_w default_params))
     \<and> get_dynamic_scale_w default_params 30 = Inr (late_scale_w default_params)
     \<and> get_dynamic_scale_w default_params 45 = Inr (late_scale_w default_params)"
    by blast
  then show ?thesis by (simp add: default_params_def)
qed

section \<open>Properties of the obstacle test\<close>

text \<open>
  C3. For every contrast ratio \<open>r\<close> between 0 and 1, and thresholds with
  \<^verbatim>\<open>0 <= obstacle_min_contrast\<close> and \<^verbatim>\<open>obstacle_max_contrast <= 1\<close>, the obstacle test is
  true exactly when \<^verbatim>\<open>obstacle_min_contrast < r < obstacle_max_contrast\<close>, both inequalities
  strict; in particular it is false at \<open>r = 0\<close> and at \<open>r = 1\<close>.
\<close>

theorem C3_is_obstacle:
  assumes "0 \<le> obstacle_min_contrast p" and "obstacle_max_contrast p \<le> 1"
  shows "(\<forall>r. 0 \<le> r \<and> r \<le> 1 \<longrightarrow>
            (is_obstacle p r \<longleftrightarrow> obstacle_min_contrast p < r \<and> r < obstacle_max_contrast p))
       \<and> \<not> is_obstacle p 0 \<and> \<not> is_obstacle p 1
       \<and> \<not> is_obstacle p (obstacle_min_contrast p)
       \<and> \<not> is_obstacle p (obstacle_max_contrast p)"
  using assms by (auto simp: is_obstacle_def)

text \<open>
  The default thresholds 0.1 and 0.9: the ratio 0.5 is an obstacle; 0.05, 0.95, 0, 1 and
  the thresholds themselves are not.
\<close>

theorem C3_is_obstacle_witness:
  "is_obstacle default_params (5 / 10)
   \<and> \<not> is_obstacle default_params (5 / 100)
   \<and> \<not> is_obstacle default_params (95 / 100)
   \<and> \<not> is_obstacle default_params 0 \<and> \<not> is_obstacle default_params 1
   \<and> \<not> is_obstacle default_params (1 / 10) \<and> \<not> is_obstacle default_params (9 / 10)"
proof -
  have lo: "0 \<le> obstacle_min_contrast default_params"
    and hi: "obstacle_max_contrast default_params \<le> 1"
    by (simp_all add: default_params_def)
  from C3_is_obstacle [OF lo hi] have
    "\<forall>r. 0 \<le> r \<and> r \<le> 1 \<longrightarrow>
       (is_obstacle default_params r \<longleftrightarrow>
          obstacle_min_contrast default_params < r \<and> r < obstacle_max_contrast default_params)"
    and "\<not> is_obstacle default_params 0" and "\<not> is_obstacle default_params 1"
    and "\<not> is_obstacle default_params (obstacle_min_contrast default_params)"
    and "\<not> is_obstacle default_params (obstacle_max_contrast default_params)"
    by blast+
  then show ?thesis by (simp add: default_params_def)
qed

section \<open>Properties of slices\<close>

lemma take_drop_nth_upt:
  assumes "hi \<le> length xs"
  shows "take (hi - lo) (drop lo xs) = map (\<lambda>i. xs ! i) [lo..<hi]"
proof (rule nth_equalityI)
  show "length (take (hi - lo) (drop lo xs)) = length (map (\<lambda>i. xs ! i) [lo..<hi])"
    using assms by simp
next
  fix i assume "i < length (take (hi - lo) (drop lo xs))"
  then have "i < hi - lo" by simp
  with assms show "take (hi - lo) (drop lo xs) ! i = map (\<lambda>i. xs ! i) [lo..<hi] ! i"
    by simp
qed

lemma slice_bound_le: "slice_bound n i \<le> n"
  by (auto simp: slice_bound_def)

lemma slice_bound_nonneg: "0 \<le> i \<Longrightarrow> slice_bound n i = min (nat i) n"
  by (simp add: slice_bound_def)





text \<open>A slice is the list of the elements between its two normalised bounds.\<close>

lemma np_slice_rows:
  "np_slice start stop xs =
     map (\<lambda>i. xs ! i) [slice_bound (length xs) start ..< slice_bound (length xs) stop]"
  by (simp add: np_slice_def Let_def take_drop_nth_upt slice_bound_le)






section \<open>Properties of the scene classifier\<close>

lemma upt_min_left: "[min a n ..< min b n] = [a ..< min b (n::nat)]"
  by (cases "a \<le> n") (simp_all add: min_def)

lemma sky_region_strip:
  assumes "0 \<le> snd (top_left s)"
  shows "concat (np_slice (max (snd (top_left s) - template_h s) 0) (snd (top_left s)) frame)
           = sky_strip s frame"
  using assms
  by (simp add: np_slice_rows slice_bound_nonneg sky_strip_def upt_min_left)

lemma is_day_scene_total: "\<exists>d. is_day_scene p s frame = Inr d"
  by (cases "top_left s") (auto simp: is_day_scene_def Let_def py_div_def)

text \<open>
  C8. For every grayscale frame and every located character at \<open>(x, y)\<close> (the localizer
  reports \<open>y \<ge> 0\<close>) with template height \<open>h\<close>, the scene classifier looks at the rows from
  \<open>max (y - h) 0\<close> up to, not including, \<open>y\<close> (as far as the frame has them), across all
  columns. If that region is empty the scene is not day; otherwise it is day if and only
  if the fraction of pixels equal to 255 is strictly greater than \<^verbatim>\<open>day_threshold\<close>. The
  classifier never fails.
\<close>

theorem C8_is_day_scene:
  assumes "0 \<le> snd (top_left s)"
  shows "is_day_scene p s frame = Inr (spec_is_day p s frame)"
proof -
  obtain x y where xy: "top_left s = (x, y)" by (cases "top_left s")
  let ?region = "np_slice (max (y - template_h s) 0) y frame"
  have strip: "concat ?region = sky_strip s frame"
    using sky_region_strip [OF assms] xy by simp
  have size: "np_size ?region = length (sky_strip s frame)"
    by (simp only: np_size_def strip)
  have white: "count_white ?region = length (filter (\<lambda>v. v = 255) (sky_strip s frame))"
    by (simp only: count_white_def strip)
  have "is_day_scene p s frame =
          (if np_size ?region = 0 then Inr False
           else case py_div (real (count_white ?region)) (real (np_size ?region)) of
                  Inl e \<Rightarrow> Inl e
                | Inr white_ratio \<Rightarrow> Inr (white_ratio > day_threshold p))"
    by (simp add: is_day_scene_def xy Let_def)
  also have "\<dots> = Inr (spec_is_day p s frame)"
    unfolding size white by (simp add: spec_is_day_def py_div_def)
  finally show ?thesis .
qed

text \<open>
  A sky strip of ten pixels of which seven are white is day at the threshold 0.5; a
  character at the top edge of the frame has no sky above it and is classified as night.
\<close>

theorem C8_is_day_scene_witness:
  "is_day_scene default_params (tracking_bot (0, 1) 1 2 0 0) sky_frame = Inr True
   \<and> is_day_scene default_params (tracking_bot (0, 0) 1 2 0 0) sky_frame = Inr False"
proof -
  have "(0::int) \<le> snd (top_left (tracking_bot (0, 1) 1 2 0 0))"
    by (simp add: tracking_bot_def)
  then have "is_day_scene default_params (tracking_bot (0, 1) 1 2 0 0) sky_frame
        = Inr (spec_is_day default_params (tracking_bot (0, 1) 1 2 0 0) sky_frame)"
    by (rule C8_is_day_scene)
  moreover have "(0::int) \<le> snd (top_left (tracking_bot (0, 0) 1 2 0 0))"
    by (simp add: tracking_bot_def)
  then have "is_day_scene default_params (tracking_bot (0, 0) 1 2 0 0) sky_frame
        = Inr (spec_is_day default_params (tracking_bot (0, 0) 1 2 0 0) sky_frame)"
    by (rule C8_is_day_scene)
  moreover have "spec_is_day default_params (tracking_bot (0, 1) 1 2 0 0) sky_frame"
    by (simp add: spec_is_day_def sky_strip_def tracking_bot_def sky_frame_def
        default_params_def)
  moreover have "\<not> spec_is_day default_params (tracking_bot (0, 0) 1 2 0 0) sky_frame"
    by (simp add: spec_is_day_def sky_strip_def tracking_bot_def)
  ultimately show ?thesis by simp
qed

section \<open>Properties of the obstacle extractor\<close>

text \<open>The extractor is the middle and the last third of the window, cut as slices.\<close>

lemma threshold_obstacle_frames_extract:
  "threshold_obstacle_frames otsu s frame is_day scale_w
     = extract_with np_slice2 otsu s frame is_day scale_w"
  by (cases "top_left s")
    (simp add: threshold_obstacle_frames_def extract_with_def Let_def window_top_def
      window_height_def scan_left_def scan_right_def binarize_def cv2_threshold_binary_def
      cv2_threshold_otsu_def)




lemmas band_defs = extract_with_def window_top_def window_height_def scan_left_def
  scan_right_def binarize_def py_int_def np_slice2_def np_slice_def slice_bound_def



section \<open>Properties of the obstacle evaluator\<close>




text \<open>The evaluator never fails: the division is guarded by the test for an empty frame.\<close>

lemma compute_contrasts_pair: "compute_contrasts [a, b] = Inr [contrast a, contrast b]"
  by (simp add: contrast_def py_div_def)

lemma contrast_examples:
  "contrast [[0, 0]] = 0" "contrast [[255, 0]] = 1 / 2" "contrast [[255, 255]] = 1"
  "contrast [[]] = 0"
  by (simp_all add: contrast_def np_size_def count_white_def)





section \<open>Properties of one iteration\<close>

lemma key_events_append: "key_events (xs @ ys) = key_events xs @ key_events ys"
  by (simp add: key_events_def)

lemma key_events_calls: "key_events perception_calls = []"
  by (simp add: key_events_def perception_calls_def)

text \<open>The key action, for durations that are not negative.\<close>

lemma input_action_cases:
  assumes "0 \<le> duck_time p" and "0 \<le> post_jump_duck_sleep p"
  shows "input_action p e now bottom middle s =
     Inr (if bottom \<or> middle then s\<lparr>last_button_push := now\<rparr> else s,
          if bottom then
            (if late_game_time p \<le> e
             then [KeyDown ''space'', KeyUp ''space'', Sleep (post_jump_duck_sleep p),
                   KeyDown ''down'', KeyUp ''down'']
             else [Press ''space''])
          else if middle then [KeyDown ''down'', Sleep (duck_time p), KeyUp ''down'']
          else [])"
  using assms by (simp add: input_action_def time_sleep_def)

text \<open>What the key action leaves as it is, and that its events are key events.\<close>

lemma input_action_frame:
  assumes "input_action p e now bottom middle s = Inr (s1, keys)"
  shows "character_state s1 = character_state s \<and> skip_initialize s1 = skip_initialize s
       \<and> start_time s1 = start_time s
       \<and> template_day s1 = template_day s \<and> template_night s1 = template_night s
       \<and> key_events keys = keys"
  using assms
  by (auto simp: input_action_def time_sleep_def character_state_def key_events_def
      split: if_splits)

lemma input_action_no_calls:
  assumes "input_action p e now bottom middle s = Inr (s1, keys)"
  shows "Call c \<notin> set keys"
  using assms by (auto simp: input_action_def time_sleep_def split: if_splits)

lemma idle_reset_frame:
  "character_state (fst (idle_reset p now t s)) = character_state s
   \<and> skip_initialize (fst (idle_reset p now t s)) = skip_initialize s
   \<and> template_day (fst (idle_reset p now t s)) = template_day s
   \<and> template_night (fst (idle_reset p now t s)) = template_night s
   \<and> Call c \<notin> set (snd (idle_reset p now t s))"
  by (simp add: idle_reset_def character_state_def)

text \<open>
  A tracking iteration, given what its perception steps return: the perception calls, the
  key action and the idle reset, in this order.
\<close>

lemma tracking_tick_unfold:
  assumes "is_day_scene p s (frame_gray inp) = Inr day"
    and "get_dynamic_scale_w p (clock1 inp - start_time s) = Inr scale_w"
    and "input_action p (clock1 inp - start_time s) (clock2 inp)
           (is_obstacle p
              (contrast (snd (threshold_obstacle_frames otsu s (frame_gray inp) day scale_w))))
           (is_obstacle p
              (contrast (fst (threshold_obstacle_frames otsu s (frame_gray inp) day scale_w))))
           s = Inr (s1, keys)"
  shows "tracking_tick p otsu s inp =
           Inr (fst (idle_reset p (clock2 inp) (clock3 inp) s1),
                perception_calls @ keys @ snd (idle_reset p (clock2 inp) (clock3 inp) s1))"
proof -
  obtain m b where T: "threshold_obstacle_frames otsu s (frame_gray inp) day scale_w = (m, b)"
    by (cases "threshold_obstacle_frames otsu s (frame_gray inp) day scale_w")
  have c: "compute_contrasts [m, b] = Inr [contrast m, contrast b]"
    by (rule compute_contrasts_pair)
  from assms(3) T have a: "input_action p (clock1 inp - start_time s) (clock2 inp)
      (is_obstacle p (contrast b)) (is_obstacle p (contrast m)) s = Inr (s1, keys)"
    by simp
  obtain s2 reset where r: "idle_reset p (clock2 inp) (clock3 inp) s1 = (s2, reset)"
    by (cases "idle_reset p (clock2 inp) (clock3 inp) s1")
  show ?thesis
    by (simp add: tracking_tick_def assms(1,2) Let_def T c a r perception_calls_def
        del: compute_contrasts.simps)
qed

text \<open>Every tracking iteration that ends without an error has this form.\<close>

lemma tracking_tick_Inr:
  assumes "tracking_tick p otsu s inp = Inr (s', evs)"
  shows "\<exists>e bottom middle s1 keys.
           input_action p e (clock2 inp) bottom middle s = Inr (s1, keys)
         \<and> s' = fst (idle_reset p (clock2 inp) (clock3 inp) s1)
         \<and> evs = perception_calls @ keys @ snd (idle_reset p (clock2 inp) (clock3 inp) s1)"
proof -
  obtain day where day: "is_day_scene p s (frame_gray inp) = Inr day"
    using is_day_scene_total by blast
  from assms day obtain scale_w where
    scale: "get_dynamic_scale_w p (clock1 inp - start_time s) = Inr scale_w"
    by (cases "get_dynamic_scale_w p (clock1 inp - start_time s)")
      (simp_all add: tracking_tick_def Let_def)
  let ?T = "threshold_obstacle_frames otsu s (frame_gray inp) day scale_w"
  let ?act = "input_action p (clock1 inp - start_time s) (clock2 inp)
           (is_obstacle p (contrast (snd ?T))) (is_obstacle p (contrast (fst ?T))) s"
  obtain m b where T: "?T = (m, b)" by (cases ?T)
  have c: "compute_contrasts [m, b] = Inr [contrast m, contrast b]"
    by (rule compute_contrasts_pair)
  from assms obtain s1 keys where act: "?act = Inr (s1, keys)"
    by (cases ?act)
      (auto simp add: tracking_tick_def day scale Let_def T c simp del: compute_contrasts.simps)
  from assms tracking_tick_unfold [OF day scale act]
  have "s' = fst (idle_reset p (clock2 inp) (clock3 inp) s1)"
    and "evs = perception_calls @ keys @ snd (idle_reset p (clock2 inp) (clock3 inp) s1)"
    by simp_all
  with act show ?thesis by blast
qed

lemma tracking_tick_frame:
  assumes "tracking_tick p otsu s inp = Inr (s', evs)"
  shows "character_state s' = character_state s \<and> skip_initialize s' = skip_initialize s
       \<and> template_day s' = template_day s \<and> template_night s' = template_night s
       \<and> Call FindDinosaur \<notin> set evs"
proof -
  from tracking_tick_Inr [OF assms] obtain e bottom middle s1 keys where
    act: "input_action p e (clock2 inp) bottom middle s = Inr (s1, keys)"
    and s': "s' = fst (idle_reset p (clock2 inp) (clock3 inp) s1)"
    and evs: "evs = perception_calls @ keys @ snd (idle_reset p (clock2 inp) (clock3 inp) s1)"
    by blast
  from input_action_frame [OF act]
    idle_reset_frame [of p "clock2 inp" "clock3 inp" s1 FindDinosaur]
    input_action_no_calls [OF act, of FindDinosaur]
  show ?thesis
    by (simp add: s' evs perception_calls_def)
qed

lemma searching_tick_events:
  "snd (searching_tick p s inp) = [Call FindDinosaur]
   \<or> snd (searching_tick p s inp) = [Call FindDinosaur, Press ''space'']"
  by (cases "find_dinosaur p s (matcher_of inp)") (simp add: searching_tick_def Let_def)

lemma searching_tick_templates:
  "template_day (fst (searching_tick p s inp)) = template_day s
   \<and> template_night (fst (searching_tick p s inp)) = template_night s"
  by (cases "find_dinosaur p s (matcher_of inp)") (simp add: searching_tick_def Let_def)

lemma play_tick_tracking:
  assumes "skip_initialize s" and "play_tick p otsu s inp = Inr (s', evs)"
  shows "skip_initialize s' \<and> character_state s' = character_state s
       \<and> Call FindDinosaur \<notin> set evs"
  using assms tracking_tick_frame [of p otsu s inp s' evs] by (simp add: play_tick_def)

lemma play_tick_searching:
  assumes "\<not> skip_initialize s" and "play_tick p otsu s inp = Inr (s', evs)"
  shows "\<forall>c \<in> tracking_calls. Call c \<notin> set evs"
  using assms searching_tick_events [of p s inp]
  by (auto simp: play_tick_def tracking_calls_def)

lemma play_tick_templates:
  assumes "play_tick p otsu s inp = Inr (s', evs)"
  shows "template_day s' = template_day s \<and> template_night s' = template_night s"
proof (cases "skip_initialize s")
  case False
  with assms have "s' = fst (searching_tick p s inp)"
    by (auto simp: play_tick_def)
  then show ?thesis by (simp add: searching_tick_templates)
next
  case True
  with assms have "tracking_tick p otsu s inp = Inr (s', evs)"
    by (simp add: play_tick_def)
  from tracking_tick_frame [OF this] show ?thesis by simp
qed

text \<open>With sensible parameters an iteration never fails.\<close>

lemma play_tick_total:
  assumes "0 < late_game_time p" and "0 \<le> duck_time p" and "0 \<le> post_jump_duck_sleep p"
  shows "\<exists>s' evs. play_tick p otsu s inp = Inr (s', evs)"
proof (cases "skip_initialize s")
  case False
  then show ?thesis
    by (cases "searching_tick p s inp") (simp add: play_tick_def)
next
  case True
  obtain day where day: "is_day_scene p s (frame_gray inp) = Inr day"
    using is_day_scene_total by blast
  obtain scale_w where scale: "get_dynamic_scale_w p (clock1 inp - start_time s) = Inr scale_w"
    using assms(1) by (simp add: get_dynamic_scale_w_value)
  from tracking_tick_unfold [OF day scale input_action_cases [OF assms(2,3)]] True
  show ?thesis
    by (simp add: play_tick_def)
qed

section \<open>Properties of the key action and the idle reset\<close>

text \<open>Example iterations: the pieces of a tracking iteration on the example frames.\<close>

lemma night_at_top: "is_day_scene p (tracking_bot (x, 0) h w a b) frame = Inr False"
  by (simp add: is_day_scene_def tracking_bot_def np_slice_def slice_bound_def np_size_def)

lemma default_scale_examples:
  "get_dynamic_scale_w default_params 40 = Inr 4"
  "get_dynamic_scale_w default_params 0 = Inr (3 / 2)"
  "get_dynamic_scale_w default_params 8 = Inr (13 / 6)"
  by (simp_all add: get_dynamic_scale_w_def py_div_def default_params_def)

lemma ground_bands_late:
  "threshold_obstacle_frames (\<lambda>b. 127) (tracking_bot (0, 0) 2 2 a b) ground_frame False 4
     = ([[0, 0]], [[255, 0]])"
  unfolding threshold_obstacle_frames_extract
  by (simp add: band_defs tracking_bot_def ground_frame_def)

lemma bird_bands_early:
  "threshold_obstacle_frames (\<lambda>b. 127) (tracking_bot (0, 0) 2 2 a b) bird_frame False (3 / 2)
     = ([[255, 0]], [[0, 0]])"
  unfolding threshold_obstacle_frames_extract
  by (simp add: band_defs tracking_bot_def bird_frame_def)

lemma empty_bands_idle:
  "threshold_obstacle_frames (\<lambda>b. 127) (tracking_bot (0, 0) 2 2 a b) empty_frame False (13 / 6)
     = ([[0, 0]], [[0, 0]])"
  unfolding threshold_obstacle_frames_extract
  by (simp add: band_defs tracking_bot_def empty_frame_def)

lemma default_params_sensible:
  "0 < late_game_time default_params" "0 \<le> duck_time default_params"
  "0 \<le> post_jump_duck_sleep default_params" "0 \<le> idle_reset_time default_params"
  by (simp_all add: default_params_def)

text \<open>
  C1. In the tracking state, with durations and an idle time that are not negative and a
  positive \<^verbatim>\<open>late_game_time\<close>, every iteration ends without an error, and its key events
  are chosen from the two contrasts of its frame as follows. A bottom obstacle has
  priority over a middle obstacle. With a bottom obstacle and an elapsed time of at least
  \<^verbatim>\<open>late_game_time\<close> the bot emits jump key-down, jump key-up, a sleep of
  \<^verbatim>\<open>post_jump_duck_sleep\<close>, duck key-down, duck key-up. With a bottom obstacle and a smaller
  elapsed time it emits one jump press. With a middle obstacle only it holds the duck
  key for \<^verbatim>\<open>duck_time\<close> and releases it. In these three cases \<^verbatim>\<open>last_button_push\<close> becomes
  the iteration's time \<^verbatim>\<open>now\<close>. With no obstacle the key action emits nothing and changes
  nothing; the only key event such an iteration can have is the jump press of the idle
  reset that follows the key action.
\<close>

theorem C1_action_selection:
  assumes "skip_initialize s" and "0 < late_game_time p"
    and "0 \<le> duck_time p" and "0 \<le> post_jump_duck_sleep p" and "0 \<le> idle_reset_time p"
  shows "\<exists>s' evs day scale_w middle_contrast bottom_contrast.
      play_tick p otsu s inp = Inr (s', evs)
    \<and> is_day_scene p s (frame_gray inp) = Inr day
    \<and> get_dynamic_scale_w p (clock1 inp - start_time s) = Inr scale_w
    \<and> compute_contrasts
          [fst (threshold_obstacle_frames otsu s (frame_gray inp) day scale_w),
           snd (threshold_obstacle_frames otsu s (frame_gray inp) day scale_w)]
        = Inr [middle_contrast, bottom_contrast]
    \<and> (is_obstacle p bottom_contrast \<and> late_game_time p \<le> clock1 inp - start_time s \<longrightarrow>
          key_events evs = [KeyDown ''space'', KeyUp ''space'', Sleep (post_jump_duck_sleep p),
                            KeyDown ''down'', KeyUp ''down'']
        \<and> last_button_push s' = clock2 inp)
    \<and> (is_obstacle p bottom_contrast \<and> clock1 inp - start_time s < late_game_time p \<longrightarrow>
          key_events evs = [Press ''space''] \<and> last_button_push s' = clock2 inp)
    \<and> (\<not> is_obstacle p bottom_contrast \<and> is_obstacle p middle_contrast \<longrightarrow>
          key_events evs = [KeyDown ''down'', Sleep (duck_time p), KeyUp ''down'']
        \<and> last_button_push s' = clock2 inp)
    \<and> (\<not> is_obstacle p bottom_contrast \<and> \<not> is_obstacle p middle_contrast \<longrightarrow>
          input_action p (clock1 inp - start_time s) (clock2 inp) False False s = Inr (s, [])
        \<and> key_events evs =
            (if idle_reset_time p < clock2 inp - last_button_push s then [Press ''space'']
             else []))"
proof -
  let ?e = "clock1 inp - start_time s" and ?now = "clock2 inp"
  obtain day where day: "is_day_scene p s (frame_gray inp) = Inr day"
    using is_day_scene_total by blast
  obtain scale_w where scale: "get_dynamic_scale_w p ?e = Inr scale_w"
    using assms(2) by (simp add: get_dynamic_scale_w_value)
  let ?T = "threshold_obstacle_frames otsu s (frame_gray inp) day scale_w"
  let ?mc = "contrast (fst ?T)" and ?bc = "contrast (snd ?T)"
  let ?s1 = "if is_obstacle p ?bc \<or> is_obstacle p ?mc then s\<lparr>last_button_push := ?now\<rparr> else s"
  let ?keys = "if is_obstacle p ?bc then
            (if late_game_time p \<le> ?e
             then [KeyDown ''space'', KeyUp ''space'', Sleep (post_jump_duck_sleep p),
                   KeyDown ''down'', KeyUp ''down'']
             else [Press ''space''])
          else if is_obstacle p ?mc then [KeyDown ''down'', Sleep (duck_time p), KeyUp ''down'']
          else []"
  have act: "input_action p ?e ?now (is_obstacle p ?bc) (is_obstacle p ?mc) s = Inr (?s1, ?keys)"
    using assms(3,4) by (rule input_action_cases)
  let ?s' = "fst (idle_reset p ?now (clock3 inp) ?s1)"
  let ?evs = "perception_calls @ ?keys @ snd (idle_reset p ?now (clock3 inp) ?s1)"
  have tick: "play_tick p otsu s inp = Inr (?s', ?evs)"
    using assms(1) tracking_tick_unfold [OF day scale act] by (simp add: play_tick_def)
  have contrasts: "compute_contrasts [fst ?T, snd ?T] = Inr [?mc, ?bc]"
    by (rule compute_contrasts_pair)
  have bottom_late: "key_events ?evs = [KeyDown ''space'', KeyUp ''space'',
        Sleep (post_jump_duck_sleep p), KeyDown ''down'', KeyUp ''down'']
      \<and> last_button_push ?s' = ?now"
    if "is_obstacle p ?bc" and "late_game_time p \<le> ?e"
    using that assms(5) by (simp add: idle_reset_def key_events_def perception_calls_def)
  have bottom_early: "key_events ?evs = [Press ''space''] \<and> last_button_push ?s' = ?now"
    if "is_obstacle p ?bc" and "?e < late_game_time p"
    using that assms(5) by (simp add: idle_reset_def key_events_def perception_calls_def)
  have middle: "key_events ?evs = [KeyDown ''down'', Sleep (duck_time p), KeyUp ''down'']
      \<and> last_button_push ?s' = ?now"
    if "\<not> is_obstacle p ?bc" and "is_obstacle p ?mc"
    using that assms(5) by (simp add: idle_reset_def key_events_def perception_calls_def)
  have none: "input_action p ?e ?now False False s = Inr (s, [])
      \<and> key_events ?evs =
          (if idle_reset_time p < ?now - last_button_push s then [Press ''space''] else [])"
    if "\<not> is_obstacle p ?bc" and "\<not> is_obstacle p ?mc"
    using that
    by (simp add: idle_reset_def key_events_def input_action_def perception_calls_def)
  from tick day scale contrasts bottom_late bottom_early middle none show ?thesis
    by blast
qed

text \<open>
  Two iterations with the default parameters. At the elapsed time 40 a bottom band with
  the contrast 0.5 gives the jump, the sleep of 0.02 and the duck; at the elapsed time 0
  a middle band with the contrast 0.5 and a dark bottom band give the duck held for 0.4.
\<close>

theorem C1_action_selection_witness:
  "(\<exists>s' evs. play_tick default_params (\<lambda>b. 127) (tracking_bot (0, 0) 2 2 35 0)
               (tick_at (\<lambda>t. (0, (0, 0))) ground_frame 40 40 41) = Inr (s', evs)
     \<and> key_events evs = [KeyDown ''space'', KeyUp ''space'', Sleep (2 / 100),
                          KeyDown ''down'', KeyUp ''down'']
     \<and> last_button_push s' = 40)
   \<and> (\<exists>s' evs. play_tick default_params (\<lambda>b. 127) (tracking_bot (0, 0) 2 2 0 0)
               (tick_at (\<lambda>t. (0, (0, 0))) bird_frame 0 1 2) = Inr (s', evs)
     \<and> key_events evs = [KeyDown ''down'', Sleep (4 / 10), KeyUp ''down'']
     \<and> last_button_push s' = 1)"
proof -
  let ?m = "\<lambda>t::image. (0::real, (0::int, 0::int))"
  have late: "\<exists>s' evs. play_tick default_params (\<lambda>b. 127) (tracking_bot (0, 0) 2 2 35 0)
               (tick_at ?m ground_frame 40 40 41) = Inr (s', evs)
     \<and> key_events evs = [KeyDown ''space'', KeyUp ''space'', Sleep (2 / 100),
                          KeyDown ''down'', KeyUp ''down'']
     \<and> last_button_push s' = 40"
  proof -
    let ?s = "tracking_bot (0, 0) 2 2 35 0" and ?inp = "tick_at ?m ground_frame 40 40 41"
    have "skip_initialize ?s" by (simp add: tracking_bot_def)
    from C1_action_selection [OF this default_params_sensible, of "\<lambda>b. 127" ?inp]
    obtain s' evs day scale_w middle_contrast bottom_contrast where
      tick: "play_tick default_params (\<lambda>b. 127) ?s ?inp = Inr (s', evs)"
      and day: "is_day_scene default_params ?s (frame_gray ?inp) = Inr day"
      and scale: "get_dynamic_scale_w default_params (clock1 ?inp - start_time ?s) = Inr scale_w"
      and contrasts: "compute_contrasts
            [fst (threshold_obstacle_frames (\<lambda>b. 127) ?s (frame_gray ?inp) day scale_w),
             snd (threshold_obstacle_frames (\<lambda>b. 127) ?s (frame_gray ?inp) day scale_w)]
          = Inr [middle_contrast, bottom_contrast]"
      and keys: "is_obstacle default_params bottom_contrast
          \<and> late_game_time default_params \<le> clock1 ?inp - start_time ?s \<longrightarrow>
            key_events evs = [KeyDown ''space'', KeyUp ''space'',
                Sleep (post_jump_duck_sleep default_params), KeyDown ''down'', KeyUp ''down'']
          \<and> last_button_push s' = clock2 ?inp"
      by (elim exE conjE)
    from day have d: "day = False"
      by (simp add: night_at_top)
    from scale have sc: "scale_w = 4"
      by (simp add: tick_at_def tracking_bot_def default_scale_examples)
    from contrasts have "bottom_contrast = 1 / 2"
      unfolding d sc
      by (simp add: tick_at_def ground_bands_late compute_contrasts_pair contrast_examples
          del: compute_contrasts.simps)
    then have "is_obstacle default_params bottom_contrast
          \<and> late_game_time default_params \<le> clock1 ?inp - start_time ?s"
      by (simp add: is_obstacle_def default_params_def tick_at_def tracking_bot_def)
    with keys tick show ?thesis
      by (simp add: default_params_def tick_at_def)
  qed
  have bird: "\<exists>s' evs. play_tick default_params (\<lambda>b. 127) (tracking_bot (0, 0) 2 2 0 0)
               (tick_at ?m bird_frame 0 1 2) = Inr (s', evs)
     \<and> key_events evs = [KeyDown ''down'', Sleep (4 / 10), KeyUp ''down'']
     \<and> last_button_push s' = 1"
  proof -
    let ?s = "tracking_bot (0, 0) 2 2 0 0" and ?inp = "tick_at ?m bird_frame 0 1 2"
    have "skip_initialize ?s" by (simp add: tracking_bot_def)
    from C1_action_selection [OF this default_params_sensible, of "\<lambda>b. 127" ?inp]
    obtain s' evs day scale_w middle_contrast bottom_contrast where
      tick: "play_tick default_params (\<lambda>b. 127) ?s ?inp = Inr (s', evs)"
      and day: "is_day_scene default_params ?s (frame_gray ?inp) = Inr day"
      and scale: "get_dynamic_scale_w default_params (clock1 ?inp - start_time ?s) = Inr scale_w"
      and contrasts: "compute_contrasts
            [fst (threshold_obstacle_frames (\<lambda>b. 127) ?s (frame_gray ?inp) day scale_w),
             snd (threshold_obstacle_frames (\<lambda>b. 127) ?s (frame_gray ?inp) day scale_w)]
          = Inr [middle_contrast, bottom_contrast]"
      and keys: "\<not> is_obstacle default_params bottom_contrast
          \<and> is_obstacle default_params middle_contrast \<longrightarrow>
            key_events evs = [KeyDown ''down'', Sleep (duck_time default_params), KeyUp ''down'']
          \<and> last_button_push s' = clock2 ?inp"
      by (elim exE conjE)
    from day have d: "day = False"
      by (simp add: night_at_top)
    from scale have sc: "scale_w = 3 / 2"
      by (simp add: tick_at_def tracking_bot_def default_scale_examples)
    from contrasts have "middle_contrast = 1 / 2 \<and> bottom_contrast = 0"
      unfolding d sc
      by (simp add: tick_at_def bird_bands_early compute_contrasts_pair contrast_examples
          del: compute_contrasts.simps)
    then have "\<not> is_obstacle default_params bottom_contrast
          \<and> is_obstacle default_params middle_contrast"
      by (simp add: is_obstacle_def default_params_def)
    with keys tick show ?thesis
      by (simp add: default_params_def tick_at_def)
  qed
  from late bird show ?thesis by (rule conjI)
qed

text \<open>
  C5, as the program has it. In the tracking state, with durations that are not negative
  and a positive \<^verbatim>\<open>late_game_time\<close>, every iteration ends without an error. When at its end
  \<^verbatim>\<open>now - last_button_push > idle_reset_time\<close> holds (with \<^verbatim>\<open>last_button_push\<close> as the key
  action has left it), the idle reset issues exactly one jump press, after the events of
  the key action; \<^verbatim>\<open>last_button_push\<close> becomes \<^verbatim>\<open>now\<close>, the reading of the clock taken
  before the key action, and \<^verbatim>\<open>start_time\<close> becomes a new reading of the clock, taken
  after the press, which need not be \<^verbatim>\<open>now\<close>. The cached position and size of the
  character are unchanged and the bot stays in the tracking state. With no obstacle in
  the frame the key action has no event, so the jump press is the only key event.
  Otherwise the idle reset does nothing.
\<close>

theorem C5_idle_reset:
  assumes "skip_initialize s" and "0 < late_game_time p"
    and "0 \<le> duck_time p" and "0 \<le> post_jump_duck_sleep p"
  shows "\<exists>s' evs day scale_w middle_contrast bottom_contrast s1 keys.
      play_tick p otsu s inp = Inr (s', evs)
    \<and> is_day_scene p s (frame_gray inp) = Inr day
    \<and> get_dynamic_scale_w p (clock1 inp - start_time s) = Inr scale_w
    \<and> compute_contrasts
          [fst (threshold_obstacle_frames otsu s (frame_gray inp) day scale_w),
           snd (threshold_obstacle_frames otsu s (frame_gray inp) day scale_w)]
        = Inr [middle_contrast, bottom_contrast]
    \<and> input_action p (clock1 inp - start_time s) (clock2 inp)
          (is_obstacle p bottom_contrast) (is_obstacle p middle_contrast) s = Inr (s1, keys)
    \<and> (\<not> is_obstacle p bottom_contrast \<and> \<not> is_obstacle p middle_contrast \<longrightarrow>
          s1 = s \<and> keys = [])
    \<and> (idle_reset_time p < clock2 inp - last_button_push s1 \<longrightarrow>
          key_events evs = keys @ [Press ''space'']
        \<and> last_button_push s' = clock2 inp
        \<and> start_time s' = clock3 inp
        \<and> character_state s' = character_state s
        \<and> skip_initialize s')
    \<and> (clock2 inp - last_button_push s1 \<le> idle_reset_time p \<longrightarrow>
          key_events evs = keys \<and> s' = s1)"
proof -
  let ?e = "clock1 inp - start_time s" and ?now = "clock2 inp"
  obtain day where day: "is_day_scene p s (frame_gray inp) = Inr day"
    using is_day_scene_total by blast
  obtain scale_w where scale: "get_dynamic_scale_w p ?e = Inr scale_w"
    using assms(2) by (simp add: get_dynamic_scale_w_value)
  let ?T = "threshold_obstacle_frames otsu s (frame_gray inp) day scale_w"
  let ?mc = "contrast (fst ?T)" and ?bc = "contrast (snd ?T)"
  obtain s1 keys where
    act: "input_action p ?e ?now (is_obstacle p ?bc) (is_obstacle p ?mc) s = Inr (s1, keys)"
    using input_action_cases [OF assms(3,4)] by blast
  note frame = input_action_frame [OF act]
  let ?s' = "fst (idle_reset p ?now (clock3 inp) s1)"
  let ?evs = "perception_calls @ keys @ snd (idle_reset p ?now (clock3 inp) s1)"
  have tick: "play_tick p otsu s inp = Inr (?s', ?evs)"
    using assms(1) tracking_tick_unfold [OF day scale act] by (simp add: play_tick_def)
  have contrasts: "compute_contrasts [fst ?T, snd ?T] = Inr [?mc, ?bc]"
    by (rule compute_contrasts_pair)
  have keys: "key_events keys = keys"
    using frame by simp
  have none: "s1 = s \<and> keys = []" if "\<not> is_obstacle p ?bc" and "\<not> is_obstacle p ?mc"
    using that act by (simp add: input_action_def)
  have fires: "key_events ?evs = keys @ [Press ''space'']
      \<and> last_button_push ?s' = ?now \<and> start_time ?s' = clock3 inp
      \<and> character_state ?s' = character_state s \<and> skip_initialize ?s'"
    if "idle_reset_time p < ?now - last_button_push s1"
  proof -
    from that have "idle_reset p ?now (clock3 inp) s1
        = (s1\<lparr>start_time := clock3 inp, last_button_push := ?now\<rparr>, [Press ''space''])"
      by (simp add: idle_reset_def)
    moreover have "key_events [Press ''space''] = [Press ''space'']"
      by (simp add: key_events_def)
    ultimately show ?thesis
      using frame assms(1)
      by (simp add: key_events_append key_events_calls keys character_state_def)
  qed
  have quiet: "key_events ?evs = keys \<and> ?s' = s1"
    if "?now - last_button_push s1 \<le> idle_reset_time p"
  proof -
    from that have "idle_reset p ?now (clock3 inp) s1 = (s1, [])"
      by (simp add: idle_reset_def)
    moreover have "key_events [] = []"
      by (simp add: key_events_def)
    ultimately show ?thesis
      by (simp add: key_events_append key_events_calls keys)
  qed
  from tick day scale contrasts act none fires quiet show ?thesis
    by blast
qed

text \<open>
  No obstacle and no key for 8 seconds, with an idle time of 7: one jump press, and the
  two times are set, the cached character is kept.
\<close>

theorem C5_idle_reset_witness:
  "\<exists>s' evs. play_tick default_params (\<lambda>b. 127) (tracking_bot (0, 0) 2 2 0 0)
               (tick_at (\<lambda>t. (0, (0, 0))) empty_frame 8 8 (33 / 4)) = Inr (s', evs)
     \<and> key_events evs = [Press ''space'']
     \<and> last_button_push s' = 8 \<and> start_time s' = 33 / 4
     \<and> character_state s' = ((0, 0), 2, 2) \<and> skip_initialize s'"
proof -
  let ?m = "\<lambda>t::image. (0::real, (0::int, 0::int))"
  let ?s = "tracking_bot (0, 0) 2 2 0 0" and ?inp = "tick_at ?m empty_frame 8 8 (33 / 4)"
  have "skip_initialize ?s" by (simp add: tracking_bot_def)
  from C5_idle_reset [OF this default_params_sensible(1-3), of "\<lambda>b. 127" ?inp]
  obtain s' evs day scale_w middle_contrast bottom_contrast s1 keys where
    tick: "play_tick default_params (\<lambda>b. 127) ?s ?inp = Inr (s', evs)"
    and day: "is_day_scene default_params ?s (frame_gray ?inp) = Inr day"
    and scale: "get_dynamic_scale_w default_params (clock1 ?inp - start_time ?s) = Inr scale_w"
    and contrasts: "compute_contrasts
          [fst (threshold_obstacle_frames (\<lambda>b. 127) ?s (frame_gray ?inp) day scale_w),
           snd (threshold_obstacle_frames (\<lambda>b. 127) ?s (frame_gray ?inp) day scale_w)]
        = Inr [middle_contrast, bottom_contrast]"
    and none: "\<not> is_obstacle default_params bottom_contrast
        \<and> \<not> is_obstacle default_params middle_contrast \<longrightarrow> s1 = ?s \<and> keys = []"
    and fires: "idle_reset_time default_params < clock2 ?inp - last_button_push s1 \<longrightarrow>
          key_events evs = keys @ [Press ''space'']
        \<and> last_button_push s' = clock2 ?inp
        \<and> start_time s' = clock3 ?inp
        \<and> character_state s' = character_state ?s
        \<and> skip_initialize s'"
    by (elim exE conjE)
  from day have d: "day = False"
    by (simp add: night_at_top)
  from scale have sc: "scale_w = 13 / 6"
    by (simp add: tick_at_def tracking_bot_def default_scale_examples)
  from contrasts have "middle_contrast = 0 \<and> bottom_contrast = 0"
    unfolding d sc
    by (simp add: tick_at_def empty_bands_idle compute_contrasts_pair contrast_examples
        del: compute_contrasts.simps)
  then have "\<not> is_obstacle default_params bottom_contrast
        \<and> \<not> is_obstacle default_params middle_contrast"
    by (simp add: is_obstacle_def default_params_def)
  with none have s1: "s1 = ?s" and keys: "keys = []"
    by simp_all
  have "idle_reset_time default_params < clock2 ?inp - last_button_push s1"
    by (simp add: s1 default_params_def tick_at_def tracking_bot_def)
  with fires tick show ?thesis
    by (simp add: keys tick_at_def character_state_def tracking_bot_def)
qed

text \<open>
  The same iteration, computed: the clock reads 8 before the key action and 8.25 after
  the jump press. \<^verbatim>\<open>last_button_push\<close> becomes 8 and \<^verbatim>\<open>start_time\<close> becomes 8.25.
\<close>

theorem C5_start_time_counterexample:
  "play_tick default_params (\<lambda>b. 127) (tracking_bot (0, 0) 2 2 0 0)
     (tick_at (\<lambda>t. (0, (0, 0))) empty_frame 8 8 (33 / 4))
     = Inr (tracking_bot (0, 0) 2 2 8 (33 / 4), perception_calls @ [Press ''space''])
   \<and> clock2 (tick_at (\<lambda>t. (0, (0, 0))) empty_frame 8 8 (33 / 4)) = 8
   \<and> last_button_push (tracking_bot (0, 0) 2 2 8 (33 / 4)) = 8
   \<and> start_time (tracking_bot (0, 0) 2 2 8 (33 / 4)) \<noteq> 8"
proof -
  let ?m = "\<lambda>t::image. (0::real, (0::int, 0::int))"
  let ?s = "tracking_bot (0, 0) 2 2 0 0" and ?inp = "tick_at ?m empty_frame 8 8 (33 / 4)"
  have day: "is_day_scene default_params ?s (frame_gray ?inp) = Inr False"
    by (rule night_at_top)
  have scale: "get_dynamic_scale_w default_params (clock1 ?inp - start_time ?s) = Inr (13 / 6)"
    by (simp add: tick_at_def tracking_bot_def default_scale_examples)
  have act: "input_action default_params (clock1 ?inp - start_time ?s) (clock2 ?inp)
      (is_obstacle default_params
         (contrast (snd (threshold_obstacle_frames (\<lambda>b. 127) ?s (frame_gray ?inp) False (13 / 6)))))
      (is_obstacle default_params
         (contrast (fst (threshold_obstacle_frames (\<lambda>b. 127) ?s (frame_gray ?inp) False (13 / 6)))))
      ?s = Inr (?s, [])"
    by (simp add: tick_at_def empty_bands_idle contrast_examples is_obstacle_def
        input_action_def default_params_def)
  have reset: "idle_reset default_params (clock2 ?inp) (clock3 ?inp) ?s
      = (tracking_bot (0, 0) 2 2 8 (33 / 4), [Press ''space''])"
    by (simp add: idle_reset_def tick_at_def tracking_bot_def default_params_def)
  have "skip_initialize ?s" by (simp add: tracking_bot_def)
  with tracking_tick_unfold [OF day scale act]
  have "play_tick default_params (\<lambda>b. 127) ?s ?inp
      = Inr (tracking_bot (0, 0) 2 2 8 (33 / 4), perception_calls @ [Press ''space''])"
    by (simp add: play_tick_def reset)
  then show ?thesis
    by (simp add: tick_at_def tracking_bot_def)
qed

section \<open>Properties of the loop\<close>

text \<open>Once in the tracking state, the loop stays there and keeps the cached character.\<close>

lemma play_tracking:
  assumes "skip_initialize s" and "play p otsu s inps = Inr (s', trace)"
  shows "skip_initialize s' \<and> character_state s' = character_state s
       \<and> (\<forall>e \<in> set trace. skip_initialize (fst e) \<and> character_state (fst e) = character_state s
             \<and> Call FindDinosaur \<notin> set (snd e))"
  using assms
proof (induction inps arbitrary: s trace)
  case Nil
  then show ?case by simp
next
  case (Cons inp inps)
  from Cons.prems(2) obtain s1 evs trace1 where
    tick: "play_tick p otsu s inp = Inr (s1, evs)"
    and rest: "play p otsu s1 inps = Inr (s', trace1)"
    and trace: "trace = (s, evs) # trace1"
    by (auto split: sum.splits prod.splits)
  from play_tick_tracking [OF Cons.prems(1) tick]
  have s1: "skip_initialize s1" "character_state s1 = character_state s"
    and evs: "Call FindDinosaur \<notin> set evs"
    by simp_all
  from Cons.IH [OF s1(1) rest] s1(2) Cons.prems(1) evs show ?case
    by (simp add: trace)
qed

lemma play_length:
  "play p otsu s inps = Inr (s', trace) \<Longrightarrow> length trace = length inps"
  by (induction inps arbitrary: s trace) (auto split: sum.splits prod.splits)

text \<open>The rest of a run is the run from the state at which the rest starts.\<close>

lemma play_suffix:
  assumes "play p otsu s inps = Inr (s', trace)" and "k < length trace"
  shows "play p otsu (fst (trace ! k)) (drop k inps) = Inr (s', drop k trace)"
  using assms
proof (induction inps arbitrary: s trace k)
  case Nil
  then show ?case by simp
next
  case (Cons inp inps)
  from Cons.prems(1) obtain s1 evs trace1 where
    tick: "play_tick p otsu s inp = Inr (s1, evs)"
    and rest: "play p otsu s1 inps = Inr (s', trace1)"
    and trace: "trace = (s, evs) # trace1"
    by (auto split: sum.splits prod.splits)
  show ?case
  proof (cases k)
    case 0
    with Cons.prems(1) trace show ?thesis by simp
  next
    case (Suc k')
    with Cons.prems(2) trace have "k' < length trace1" by simp
    from Cons.IH [OF rest this] show ?thesis
      by (simp add: Suc trace)
  qed
qed

lemma play_step:
  assumes "play p otsu s inps = Inr (s', trace)" and "k < length trace"
  shows "\<exists>s1. play_tick p otsu (fst (trace ! k)) (inps ! k) = Inr (s1, snd (trace ! k))"
proof -
  from play_length [OF assms(1)] assms(2) have k: "k < length inps" by simp
  then have d: "drop k inps = inps ! k # drop (Suc k) inps"
    by (simp add: Cons_nth_drop_Suc)
  from assms(2) have t: "drop k trace = trace ! k # drop (Suc k) trace"
    by (simp add: Cons_nth_drop_Suc)
  from play_suffix [OF assms] show ?thesis
    unfolding d t by (auto split: sum.splits prod.splits dest: arg_cong [where f = snd])
qed

text \<open>With sensible parameters a run of any length ends without an error.\<close>

lemma play_total:
  assumes "0 < late_game_time p" and "0 \<le> duck_time p" and "0 \<le> post_jump_duck_sleep p"
  shows "\<exists>s' trace. play p otsu s inps = Inr (s', trace)"
proof (induction inps arbitrary: s)
  case Nil
  show ?case by simp
next
  case (Cons inp inps)
  from play_tick_total [OF assms] obtain s1 evs where
    "play_tick p otsu s inp = Inr (s1, evs)" by blast
  moreover from Cons.IH obtain s' trace where "play p otsu s1 inps = Inr (s', trace)"
    by blast
  ultimately show ?case by simp
qed

text \<open>
  C6. In every run of the control loop, from any state and on any inputs: once an
  iteration starts in the tracking state (the character has been located), every later
  iteration starts in the tracking state too, none of them calls the localizer, the cached
  position and size of the character stay what they were, and the run ends in the
  tracking state. An iteration that starts in the searching state performs no scene
  classification, no scale computation, no band extraction and no contrast evaluation;
  this includes the iteration in which the character is found. With sensible parameters
  every run of any length exists, that is ends without an error.
\<close>

theorem C6_never_searches_again:
  "(\<forall>s' trace. play p otsu s inps = Inr (s', trace) \<longrightarrow>
      (\<forall>k j. k \<le> j \<and> j < length trace \<and> skip_initialize (fst (trace ! k)) \<longrightarrow>
            skip_initialize (fst (trace ! j))
          \<and> Call FindDinosaur \<notin> set (snd (trace ! j))
          \<and> character_state (fst (trace ! j)) = character_state (fst (trace ! k))
          \<and> skip_initialize s' \<and> character_state s' = character_state (fst (trace ! k)))
    \<and> (\<forall>k c. k < length trace \<and> \<not> skip_initialize (fst (trace ! k)) \<and> c \<in> tracking_calls \<longrightarrow>
            Call c \<notin> set (snd (trace ! k))))
   \<and> (0 < late_game_time p \<and> 0 \<le> duck_time p \<and> 0 \<le> post_jump_duck_sleep p \<longrightarrow>
        (\<exists>s' trace. play p otsu s inps = Inr (s', trace)))"
proof -
  have later: "skip_initialize (fst (trace ! j))
          \<and> Call FindDinosaur \<notin> set (snd (trace ! j))
          \<and> character_state (fst (trace ! j)) = character_state (fst (trace ! k))
          \<and> skip_initialize s' \<and> character_state s' = character_state (fst (trace ! k))"
    if run: "play p otsu s inps = Inr (s', trace)"
      and "k \<le> j" and "j < length trace" and "skip_initialize (fst (trace ! k))"
    for s' trace k j
  proof -
    from that have k: "k < length trace" by simp
    from that have "trace ! j = drop k trace ! (j - k)" by simp
    moreover from that have "j - k < length (drop k trace)" by simp
    ultimately have "trace ! j \<in> set (drop k trace)"
      by (metis nth_mem)
    with play_tracking [OF that(4) play_suffix [OF run k]] show ?thesis
      by blast
  qed
  have before: "Call c \<notin> set (snd (trace ! k))"
    if run: "play p otsu s inps = Inr (s', trace)"
      and "k < length trace" and "\<not> skip_initialize (fst (trace ! k))" and "c \<in> tracking_calls"
    for s' trace k c
    using play_step [OF run that(2)] play_tick_searching [OF that(3)] that(4) by blast
  have total: "\<exists>s' trace. play p otsu s inps = Inr (s', trace)"
    if "0 < late_game_time p" "0 \<le> duck_time p" "0 \<le> post_jump_duck_sleep p"
    using that by (rule play_total)
  from later before total show ?thesis by blast
qed

text \<open>
  A run of two iterations with the default parameters, from a bot that has only the day
  template: the first iteration finds the dinosaur at the top left corner with the score
  0.9, presses jump and evaluates nothing; the second one evaluates the frame and does
  not call the localizer.
\<close>

theorem C6_never_searches_again_witness:
  "play default_params (\<lambda>b. 127) (started_bot 1 (Some (Loaded 2 2)) None 0 0)
     [tick_at (\<lambda>t. (9 / 10, (0, 0))) empty_frame 1 (9 / 8) 0,
      tick_at (\<lambda>t. (9 / 10, (0, 0))) empty_frame 2 2 3]
     = Inr ((tracking_bot (0, 0) 2 2 1 (9 / 8))\<lparr>template_day := Some (Loaded 2 2)\<rparr>,
            [(started_bot 1 (Some (Loaded 2 2)) None 0 0, [Call FindDinosaur, Press ''space'']),
             ((tracking_bot (0, 0) 2 2 1 (9 / 8))\<lparr>template_day := Some (Loaded 2 2)\<rparr>,
              perception_calls)])
   \<and> Call FindDinosaur \<notin> set perception_calls
   \<and> Call IsDayScene \<notin> set [Call FindDinosaur, Press ''space'']
   \<and> Call ComputeContrasts \<notin> set [Call FindDinosaur, Press ''space'']"
proof -
  let ?m = "\<lambda>t::image. (9 / 10 :: real, (0::int, 0::int))"
  let ?s0 = "started_bot 1 (Some (Loaded 2 2)) None 0 0"
  let ?s1 = "(tracking_bot (0, 0) 2 2 1 (9 / 8))\<lparr>template_day := Some (Loaded 2 2)\<rparr>"
  let ?i1 = "tick_at ?m empty_frame 1 (9 / 8) 0" and ?i2 = "tick_at ?m empty_frame 2 2 3"
  let ?trace = "[(?s0, [Call FindDinosaur, Press ''space'']), (?s1, perception_calls)]"
  have tick1: "play_tick default_params (\<lambda>b. 127) ?s0 ?i1
      = Inr (?s1, [Call FindDinosaur, Press ''space''])"
    by (simp add: play_tick_def searching_tick_def find_dinosaur_def started_bot_def
        tracking_bot_def tick_at_def default_params_def)
  have day: "is_day_scene default_params ?s1 (frame_gray ?i2) = Inr False"
    by (simp add: is_day_scene_def tracking_bot_def np_slice_def slice_bound_def np_size_def)
  have scale: "get_dynamic_scale_w default_params (clock1 ?i2 - start_time ?s1)
      = Inr (151 / 96)"
    by (simp add: get_dynamic_scale_w_def py_div_def default_params_def tick_at_def
        tracking_bot_def)
  have bands: "threshold_obstacle_frames (\<lambda>b. 127) ?s1 (frame_gray ?i2) False (151 / 96)
      = ([[0, 0]], [[0, 0]])"
    unfolding threshold_obstacle_frames_extract
    by (simp add: band_defs tracking_bot_def empty_frame_def tick_at_def)
  have act: "input_action default_params (clock1 ?i2 - start_time ?s1) (clock2 ?i2)
      (is_obstacle default_params
         (contrast (snd (threshold_obstacle_frames (\<lambda>b. 127) ?s1 (frame_gray ?i2) False (151 / 96)))))
      (is_obstacle default_params
         (contrast (fst (threshold_obstacle_frames (\<lambda>b. 127) ?s1 (frame_gray ?i2) False (151 / 96)))))
      ?s1 = Inr (?s1, [])"
    unfolding bands
    by (simp add: contrast_examples is_obstacle_def input_action_def default_params_def)
  have reset: "idle_reset default_params (clock2 ?i2) (clock3 ?i2) ?s1 = (?s1, [])"
    by (simp add: idle_reset_def tick_at_def tracking_bot_def default_params_def)
  have "skip_initialize ?s1" by (simp add: tracking_bot_def)
  with tracking_tick_unfold [OF day scale act]
  have tick2: "play_tick default_params (\<lambda>b. 127) ?s1 ?i2 = Inr (?s1, perception_calls)"
    by (simp add: play_tick_def reset)
  have run: "play default_params (\<lambda>b. 127) ?s0 [?i1, ?i2] = Inr (?s1, ?trace)"
    by (simp add: tick1 tick2)
  note safe = C6_never_searches_again [of default_params "\<lambda>b. 127" ?s0 "[?i1, ?i2]",
      THEN conjunct1, rule_format, OF run]
  have "(1::nat) \<le> 1 \<and> 1 < length ?trace \<and> skip_initialize (fst (?trace ! 1))"
    by (simp add: tracking_bot_def)
  from safe [THEN conjunct1, rule_format, OF this]
  have later: "Call FindDinosaur \<notin> set perception_calls"
    by simp
  have "0 < length ?trace \<and> \<not> skip_initialize (fst (?trace ! 0)) \<and> IsDayScene \<in> tracking_calls"
    by (simp add: started_bot_def tracking_calls_def)
  from safe [THEN conjunct2, rule_format, OF this]
  have before1: "Call IsDayScene \<notin> set [Call FindDinosaur, Press ''space'']"
    by simp
  have "0 < length ?trace \<and> \<not> skip_initialize (fst (?trace ! 0))
      \<and> ComputeContrasts \<in> tracking_calls"
    by (simp add: started_bot_def tracking_calls_def)
  from safe [THEN conjunct2, rule_format, OF this]
  have before2: "Call ComputeContrasts \<notin> set [Call FindDinosaur, Press ''space'']"
    by simp
  from run later before1 before2 show ?thesis by (intro conjI)
qed

section \<open>Properties of the template store\<close>

lemma max_one_py_int: "max 1 (py_int r) = max 1 \<lfloor>r\<rfloor>"
proof (cases "0 \<le> r")
  case True
  then show ?thesis by (simp add: py_int_def)
next
  case False
  then have "\<lceil>r\<rceil> \<le> 0" and "\<lfloor>r\<rfloor> \<le> 0"
    by (simp_all add: ceiling_le_zero floor_le_zero)
  with False show ?thesis by (simp add: py_int_def)
qed

lemma scaled_floor:
  "\<lfloor>real_of_int a * real_of_int b / real_of_int c\<rfloor> = (a * b) div c"
proof -
  have "real_of_int a * real_of_int b / real_of_int c = real_of_int (a * b) / real_of_int c"
    by simp
  then show ?thesis by (simp only: floor_divide_of_int_eq)
qed

text \<open>The new size is the scaled size rounded down, and at least 1.\<close>

lemma resize_template_Some:
  assumes "py_nth monitors sid = Inr (screen_w, screen_h)"
  shows "resize_template sid 1920 1080 monitors (Some t) =
           Inr (Some (Resized t (max 1 ((shape_w t * screen_w) div 1920))
                                (max 1 ((shape_h t * screen_h) div 1080)) INTER_AREA))"
proof -
  have w: "max 1 (py_int (real_of_int (shape_w t) * real_of_int screen_w / 1920))
             = max 1 ((shape_w t * screen_w) div 1920)"
    using scaled_floor [of "shape_w t" screen_w 1920] by (simp add: max_one_py_int)
  have h: "max 1 (py_int (real_of_int (shape_h t) * real_of_int screen_h / 1080))
             = max 1 ((shape_h t * screen_h) div 1080)"
    using scaled_floor [of "shape_h t" screen_h 1080] by (simp add: max_one_py_int)
  show ?thesis
    by (simp add: resize_template_def assms py_div_def Let_def w h)
qed

lemma py_nth_second: "py_nth [a, b] 1 = Inr b"
  by (simp add: py_nth_def)




section \<open>Properties of startup and of the localizer\<close>

lemma find_dinosaur_no_template:
  assumes "template_day s = None" and "template_night s = None"
  shows "find_dinosaur p s m = (0 \<ge> confidence_threshold p, 0, (0, 0), 0, 0)"
  using assms by (simp add: find_dinosaur_def)

lemma find_dinosaur_day_only:
  assumes "template_day s = Some t" and "template_night s = None"
  shows "find_dinosaur p s m = locate_with p m t"
  using assms by (cases "m t") (simp add: find_dinosaur_def locate_with_def)

lemma find_dinosaur_night_only:
  assumes "template_day s = None" and "template_night s = Some t"
  shows "find_dinosaur p s m = locate_with p m t"
  using assms by (cases "m t") (simp add: find_dinosaur_def locate_with_def)

text \<open>
  C10, as the program has it. A template that \<^verbatim>\<open>cv2.imread\<close> cannot read is \<open>None\<close> and
  is skipped. If no template is read, startup still succeeds, for every screen id: no
  error is raised. The localizer then skips both modes and reports the score 0, so with
  a positive confidence threshold the dinosaur is never found and every iteration only
  calls the localizer. If exactly one template is read (and the screen id names a monitor),
  startup succeeds with that template resized and the other one missing, and the
  localizer reports what the remaining template alone gives. No iteration changes the
  templates, so this holds for every later frame.
\<close>

theorem C10_template_load_failure:
  "dino_init sid monitors None None t1 t2 = Inr (started_bot sid None None t1 t2)
   \<and> find_dinosaur p (started_bot sid None None t1 t2) m
       = (0 \<ge> confidence_threshold p, 0, (0, 0), 0, 0)
   \<and> (0 < confidence_threshold p \<longrightarrow>
        play_tick p otsu (started_bot sid None None t1 t2) inp
          = Inr (started_bot sid None None t1 t2, [Call FindDinosaur]))
   \<and> (py_nth monitors sid = Inr (screen_w, screen_h) \<longrightarrow>
        (\<exists>day. dino_init sid monitors (Some d) None t1 t2
                  = Inr (started_bot sid (Some day) None t1 t2)
           \<and> resize_template sid 1920 1080 monitors (Some d) = Inr (Some day))
      \<and> (\<exists>night. dino_init sid monitors None (Some n) t1 t2
                  = Inr (started_bot sid None (Some night) t1 t2)
           \<and> resize_template sid 1920 1080 monitors (Some n) = Inr (Some night)))
   \<and> find_dinosaur p (started_bot sid (Some day) None t1 t2) m = locate_with p m day
   \<and> find_dinosaur p (started_bot sid None (Some night) t1 t2) m = locate_with p m night
   \<and> (\<forall>s s' evs. play_tick p otsu s inp = Inr (s', evs) \<longrightarrow>
        template_day s' = template_day s \<and> template_night s' = template_night s)"
proof -
  have none: "dino_init sid monitors None None t1 t2 = Inr (started_bot sid None None t1 t2)"
    by (simp add: dino_init_def resize_template_def started_bot_def)
  have find_none: "find_dinosaur p (started_bot sid None None t1 t2) m'
       = (0 \<ge> confidence_threshold p, 0, (0, 0), 0, 0)" for m'
    by (rule find_dinosaur_no_template) (simp_all add: started_bot_def)
  have searching: "play_tick p otsu (started_bot sid None None t1 t2) inp
          = Inr (started_bot sid None None t1 t2, [Call FindDinosaur])"
    if "0 < confidence_threshold p"
    using that find_none [of "matcher_of inp"]
    by (simp add: play_tick_def searching_tick_def Let_def) (simp add: started_bot_def)
  have one: "(\<exists>day. dino_init sid monitors (Some d) None t1 t2
                  = Inr (started_bot sid (Some day) None t1 t2)
           \<and> resize_template sid 1920 1080 monitors (Some d) = Inr (Some day))
      \<and> (\<exists>night. dino_init sid monitors None (Some n) t1 t2
                  = Inr (started_bot sid None (Some night) t1 t2)
           \<and> resize_template sid 1920 1080 monitors (Some n) = Inr (Some night))"
    if "py_nth monitors sid = Inr (screen_w, screen_h)"
    using resize_template_Some [OF that]
    by (simp add: dino_init_def started_bot_def) (simp add: resize_template_def)
  have day: "find_dinosaur p (started_bot sid (Some day) None t1 t2) m = locate_with p m day"
    by (rule find_dinosaur_day_only) (simp_all add: started_bot_def)
  have night: "find_dinosaur p (started_bot sid None (Some night) t1 t2) m
      = locate_with p m night"
    by (rule find_dinosaur_night_only) (simp_all add: started_bot_def)
  from none find_none searching one day night play_tick_templates show ?thesis
    by blast
qed

text \<open>
  With the default parameters: a bot without templates keeps searching; with the day
  template alone, of 44 by 47 pixels on a monitor of 1920 by 1080, startup succeeds.
\<close>

theorem C10_template_load_failure_witness:
  "play_tick default_params (\<lambda>b. 127) (started_bot 1 None None 0 0)
     (tick_at (\<lambda>t. (1, (0, 0))) empty_frame 1 2 3)
     = Inr (started_bot 1 None None 0 0, [Call FindDinosaur])
   \<and> (\<exists>day. dino_init 1 [(3840, 1080), (1920, 1080)] (Some (Loaded 47 44)) None 0 0
               = Inr (started_bot 1 (Some day) None 0 0)
        \<and> resize_template 1 1920 1080 [(3840, 1080), (1920, 1080)] (Some (Loaded 47 44))
               = Inr (Some day))"
proof -
  note failure = C10_template_load_failure [of 1 "[(3840, 1080), (1920, 1080)]" 0 0
      default_params "\<lambda>t. (1, (0, 0))" "\<lambda>b. 127" "tick_at (\<lambda>t. (1, (0, 0))) empty_frame 1 2 3"
      1920 1080 "Loaded 47 44" "Loaded 47 44" "Loaded 47 44" "Loaded 47 44"]
  have "0 < confidence_threshold default_params"
    by (simp add: default_params_def)
  with failure [THEN conjunct2, THEN conjunct2, THEN conjunct1]
  have searching: "play_tick default_params (\<lambda>b. 127) (started_bot 1 None None 0 0)
     (tick_at (\<lambda>t. (1, (0, 0))) empty_frame 1 2 3)
     = Inr (started_bot 1 None None 0 0, [Call FindDinosaur])"
    by (rule mp)
  have "py_nth [(3840, 1080), (1920, 1080)] 1 = Inr (1920, 1080)"
    by (rule py_nth_second)
  with failure [THEN conjunct2, THEN conjunct2, THEN conjunct2, THEN conjunct1]
  have "(\<exists>day. dino_init 1 [(3840, 1080), (1920, 1080)] (Some (Loaded 47 44)) None 0 0
               = Inr (started_bot 1 (Some day) None 0 0)
        \<and> resize_template 1 1920 1080 [(3840, 1080), (1920, 1080)] (Some (Loaded 47 44))
               = Inr (Some day))
      \<and> (\<exists>night. dino_init 1 [(3840, 1080), (1920, 1080)] None (Some (Loaded 47 44)) 0 0
               = Inr (started_bot 1 None (Some night) 0 0)
        \<and> resize_template 1 1920 1080 [(3840, 1080), (1920, 1080)] (Some (Loaded 47 44))
               = Inr (Some night))"
    by (rule mp)
  then have "\<exists>day. dino_init 1 [(3840, 1080), (1920, 1080)] (Some (Loaded 47 44)) None 0 0
               = Inr (started_bot 1 (Some day) None 0 0)
        \<and> resize_template 1 1920 1080 [(3840, 1080), (1920, 1080)] (Some (Loaded 47 44))
               = Inr (Some day)"
    by (rule conjunct1)
  with searching show ?thesis by (rule conjI)
qed

text \<open>
  Neither template can be read: \<^verbatim>\<open>__init__\<close> returns a bot and raises nothing.
\<close>

theorem C10_no_template_counterexample:
  "dino_init 1 [(3840, 1080), (1920, 1080), (1920, 1080)] None None 0 0
     = Inr \<lparr>screen_id = 1, orig_width = 1920, orig_height = 1080,
            template_day = None, template_night = None,
            skip_initialize = False, top_left = (0, 0), template_h = 0, template_w = 0,
            last_button_push = 0, start_time = 0\<rparr>"
  by (simp add: dino_init_def resize_template_def)

end
